theory Spec2Isabelle
  imports Main
begin

section \<open>Python values, exceptions and effects\<close>

text \<open>
  The library is dynamically typed: every operation takes and returns arbitrary Python
  objects. \<open>pyval\<close> lists the kinds of objects the code distinguishes: the \<open>None\<close>
  singleton, booleans, integers, floats, strings, lists, the two variants of the library's
  own \<open>Maybe\<close> (the frozen dataclass \<open>Just\<close> with its one field \<open>value\<close>, and the
  \<open>_Nothing\<close> singleton), and any other object.

  Of a float the code only asks whether it is NaN or equal to an infinity
  (\<open>math.isnan\<close>, \<open>a == float("inf")\<close>), so a float is given by its class; a finite
  one carries a mantissa and an exponent.
\<close>

datatype pyfloat = Finite int int | PosInf | NegInf | NaN

datatype pyval =
    PNone
  | PBool bool
  | PInt int
  | PFloat pyfloat
  | PStr string
  | PList "pyval list"
  | Just pyval
  | Nothing
  | PObject nat

text \<open>
  Every handler of the library is \<open>except Exception\<close>. Python's exception classes
  all derive from \<open>BaseException\<close>; \<open>Exception\<close> is the subclass of the
  errors a program is expected to handle, and \<open>KeyboardInterrupt\<close>, \<open>SystemExit\<close>,
  \<open>GeneratorExit\<close> and user classes derived from \<open>BaseException\<close> directly lie
  outside it. An exception is modelled by its class (which decides whether a handler
  matches) and its message.
\<close>

datatype exn =
    TypeError string
  | RuntimeError string
  | AttributeError string
  | OtherException string
  | KeyboardInterrupt
  | SystemExit
  | OtherBaseException string

fun isinstance_Exception :: "exn \<Rightarrow> bool" where
  "isinstance_Exception (TypeError _) = True"
| "isinstance_Exception (RuntimeError _) = True"
| "isinstance_Exception (AttributeError _) = True"
| "isinstance_Exception (OtherException _) = True"
| "isinstance_Exception KeyboardInterrupt = False"
| "isinstance_Exception SystemExit = False"
| "isinstance_Exception (OtherBaseException _) = False"

text \<open>
  A Python call may change the program's state (a counter, a file, the position of a
  generator) and either returns a value or raises. A computation is a function from the
  state before to the outcome (\<open>Inl\<close> an exception, \<open>Inr\<close> the value returned) and the
  state after; the state type \<open>'s\<close> is arbitrary. A state change made before an
  exception is raised persists, as in Python.
\<close>

type_synonym ('s, 'a) py = "'s \<Rightarrow> (exn + 'a) \<times> 's"

type_synonym 's pyfun = "pyval \<Rightarrow> ('s, pyval) py"

definition ret :: "'a \<Rightarrow> ('s, 'a) py" where
  "ret v s = (Inr v, s)"

definition raise :: "exn \<Rightarrow> ('s, 'a) py" where
  "raise e s = (Inl e, s)"

text \<open>Sequencing: \<open>x = m; k(x)\<close>. An exception of \<open>m\<close> skips \<open>k\<close>.\<close>

definition and_then :: "('s, 'a) py \<Rightarrow> ('a \<Rightarrow> ('s, 'b) py) \<Rightarrow> ('s, 'b) py" where
  "and_then m k s = (case m s of (Inl e, s') \<Rightarrow> (Inl e, s') | (Inr v, s') \<Rightarrow> k v s')"

text \<open>
  \<^verbatim>\<open>try: body
except Exception: handler\<close>
  The handler runs only for an exception that is an instance of \<open>Exception\<close>; any
  other exception leaves the statement.
\<close>

definition try_except_Exception :: "('s, 'a) py \<Rightarrow> ('s, 'a) py \<Rightarrow> ('s, 'a) py" where
  "try_except_Exception body handler s =
     (case body s of
        (Inl e, s') \<Rightarrow> if isinstance_Exception e then handler s' else (Inl e, s')
      | (Inr v, s') \<Rightarrow> (Inr v, s'))"

section \<open>core.py\<close>

text \<open>The constructors \<open>just\<close>, \<open>nothing\<close> and \<open>from_optional\<close>.\<close>

definition just :: "pyval \<Rightarrow> pyval" where
  "just a = Just a"

definition nothing :: "pyval" where
  "nothing = Nothing"

definition from_optional :: "pyval \<Rightarrow> pyval" where
  "from_optional opt = (if opt = PNone then nothing else just opt)"

text \<open>\<open>isinstance(result, (Just, _Nothing))\<close> and \<open>isinstance(m, _Nothing)\<close>.\<close>

fun isinstance_Maybe :: "pyval \<Rightarrow> bool" where
  "isinstance_Maybe (Just _) = True"
| "isinstance_Maybe Nothing = True"
| "isinstance_Maybe _ = False"

fun isinstance_Nothing :: "pyval \<Rightarrow> bool" where
  "isinstance_Nothing Nothing = True"
| "isinstance_Nothing _ = False"

text \<open>
  The methods of the two classes, by the class of the receiver. An object of another
  class has none of these attributes: the access raises \<open>AttributeError\<close>.
\<close>

fun fmap :: "pyval \<Rightarrow> 's pyfun \<Rightarrow> ('s, pyval) py" where
  "fmap Nothing fn = ret Nothing"
| "fmap (Just v) fn =
     try_except_Exception (and_then (fn v) (\<lambda>r. ret (just r))) (ret Nothing)"
| "fmap _ fn = raise (AttributeError ''fmap'')"

fun bind :: "pyval \<Rightarrow> 's pyfun \<Rightarrow> ('s, pyval) py" where
  "bind Nothing fn = ret Nothing"
| "bind (Just v) fn =
     try_except_Exception
       (and_then (fn v) (\<lambda>result.
          if \<not> isinstance_Maybe result
          then raise (TypeError ''bind function must return a Maybe'')
          else ret result))
       (ret Nothing)"
| "bind _ fn = raise (AttributeError ''bind'')"

fun get_or :: "pyval \<Rightarrow> pyval \<Rightarrow> exn + pyval" where
  "get_or Nothing dflt = Inr dflt"
| "get_or (Just v) dflt = Inr v"
| "get_or _ dflt = Inl (AttributeError ''get_or'')"

fun to_optional :: "pyval \<Rightarrow> exn + pyval" where
  "to_optional Nothing = Inr PNone"
| "to_optional (Just v) = Inr v"
| "to_optional _ = Inl (AttributeError ''to_optional'')"

fun is_nothing :: "pyval \<Rightarrow> exn + bool" where
  "is_nothing Nothing = Inr True"
| "is_nothing (Just v) = Inr False"
| "is_nothing _ = Inl (AttributeError ''is_nothing'')"

fun is_just :: "pyval \<Rightarrow> exn + bool" where
  "is_just Nothing = Inr False"
| "is_just (Just v) = Inr True"
| "is_just _ = Inl (AttributeError ''is_just'')"

text \<open>
  \<open>sequence\<close> iterates over any iterable. A lazy one (a generator) computes an item
  only when the loop asks for it, so the input is the list of the computations that
  produce the items, in order: the loop runs one of them per iteration. \<open>m.value\<close> is
  the field of a \<open>Just\<close>; no other object has it.
\<close>

fun Just_value :: "pyval \<Rightarrow> exn + pyval" where
  "Just_value (Just v) = Inr v"
| "Just_value _ = Inl (AttributeError ''value'')"

fun sequence_loop :: "('s, pyval) py list \<Rightarrow> pyval list \<Rightarrow> ('s, pyval) py" where
  "sequence_loop [] out s = (Inr (just (PList out)), s)"
| "sequence_loop (item # maybes) out s =
     (case item s of
        (Inl e, s') \<Rightarrow> (Inl e, s')
      | (Inr m, s') \<Rightarrow>
          if isinstance_Nothing m then (Inr Nothing, s')
          else (case Just_value m of
                  Inl e \<Rightarrow> (Inl e, s')
                | Inr v \<Rightarrow> sequence_loop maybes (out @ [v]) s'))"

definition sequence :: "('s, pyval) py list \<Rightarrow> ('s, pyval) py" where
  "sequence maybes = sequence_loop maybes []"

section \<open>predicates.py\<close>

text \<open>\<open>x is True\<close> holds of the \<open>True\<close> singleton only.\<close>

definition not_true :: "pyval \<Rightarrow> bool" where
  "not_true x = (\<not> (x = PBool True))"

definition not_null :: "pyval \<Rightarrow> bool" where
  "not_null a = not_true (PBool (a = PNone))"

fun isinstance_float :: "pyval \<Rightarrow> bool" where
  "isinstance_float (PFloat _) = True"
| "isinstance_float _ = False"

text \<open>\<open>bool\<close> is a subclass of \<open>int\<close>.\<close>

fun isinstance_float_int :: "pyval \<Rightarrow> bool" where
  "isinstance_float_int (PFloat _) = True"
| "isinstance_float_int (PInt _) = True"
| "isinstance_float_int (PBool _) = True"
| "isinstance_float_int _ = False"

text \<open>\<open>math.isnan\<close>, which the code calls on floats only.\<close>

fun math_isnan :: "pyval \<Rightarrow> bool" where
  "math_isnan (PFloat NaN) = True"
| "math_isnan _ = False"

text \<open>
  \<open>a == float("inf")\<close> and \<open>a == float("-inf")\<close> for a number \<open>a\<close>: an integer or
  a boolean is finite and NaN is equal to nothing, so only the infinity itself is equal.
\<close>

fun eq_inf :: "pyval \<Rightarrow> bool" where
  "eq_inf (PFloat PosInf) = True"
| "eq_inf _ = False"

fun eq_neg_inf :: "pyval \<Rightarrow> bool" where
  "eq_neg_inf (PFloat NegInf) = True"
| "eq_neg_inf _ = False"

definition not_nan :: "pyval \<Rightarrow> bool" where
  "not_nan a = (\<not> (isinstance_float a \<and> math_isnan a))"

definition not_infinite :: "pyval \<Rightarrow> bool" where
  "not_infinite a = (\<not> (isinstance_float_int a \<and> (eq_inf a \<or> eq_neg_inf a)))"

text \<open>The builtin \<open>all\<close> on a list of booleans.\<close>

fun py_all :: "bool list \<Rightarrow> bool" where
  "py_all [] = True"
| "py_all (x # xs) = (if x then py_all xs else False)"

definition not_undefined :: "pyval \<Rightarrow> bool" where
  "not_undefined a = py_all [not_null a, not_nan a, not_infinite a]"

text \<open>
  \<open>and_(*preds)\<close> and \<open>or_(*preds)\<close> return the closure \<open>_combined\<close>;
  \<open>and_pred preds a\<close> is the call \<open>and_(*preds)(a)\<close>, and likewise \<open>or_pred\<close>. A
  predicate is any callable: it may return any object, raise, and change the state.
\<close>

fun and_pred :: "'s pyfun list \<Rightarrow> 's pyfun" where
  "and_pred [] a s = (Inr (PBool True), s)"
| "and_pred (p # preds) a s =
     (case p a s of
        (Inl e, s') \<Rightarrow> (Inl e, s')
      | (Inr r, s') \<Rightarrow> if not_true r then (Inr (PBool False), s') else and_pred preds a s')"

fun or_pred :: "'s pyfun list \<Rightarrow> 's pyfun" where
  "or_pred [] a s = (Inr (PBool False), s)"
| "or_pred (p # preds) a s =
     (case p a s of
        (Inl e, s') \<Rightarrow> if isinstance_Exception e then or_pred preds a s' else (Inl e, s')
      | (Inr r, s') \<Rightarrow> if r = PBool True then (Inr (PBool True), s') else or_pred preds a s')"

section \<open>ops.py\<close>

fun chain :: "pyval \<Rightarrow> 's pyfun list \<Rightarrow> ('s, pyval) py" where
  "chain current [] s = (Inr current, s)"
| "chain current (fn # fns) s =
     (case is_nothing current of
        Inl e \<Rightarrow> (Inl e, s)
      | Inr True \<Rightarrow> (Inr current, s)
      | Inr False \<Rightarrow>
          (case bind current fn s of
             (Inl e, s') \<Rightarrow> (Inl e, s')
           | (Inr current', s') \<Rightarrow> chain current' fns s'))"

definition compose_maybe :: "'s pyfun list \<Rightarrow> 's pyfun" where
  "compose_maybe fns m = chain m fns"

section \<open>wrappers.py\<close>

text \<open>
  The wrapped function runs inside \<open>warnings.catch_warnings(record=True)\<close> with the
  filter \<open>always\<close>: every warning it issues is appended to the list \<open>w\<close> instead of being
  shown. A call of the target is therefore a computation that yields, besides its
  outcome and the new state, the messages of the warnings recorded during the call. The
  arguments are the positional and the keyword arguments, passed through unchanged.
\<close>

type_synonym warning = string

type_synonym args = "pyval list \<times> (string \<times> pyval) list"

type_synonym 's target = "args \<Rightarrow> 's \<Rightarrow> ((exn + pyval) \<times> warning list) \<times> 's"

definition with_warning_capture ::
  "('s \<Rightarrow> ((exn + pyval) \<times> warning list) \<times> 's) \<Rightarrow> bool \<Rightarrow> ('s, pyval) py" where
  "with_warning_capture fn allow_warning s =
     (case fn s of
        ((Inl e, w), s') \<Rightarrow> (Inl e, s')
      | ((Inr result, w), s') \<Rightarrow>
          if w \<noteq> [] \<and> \<not> allow_warning
          then (Inl (RuntimeError (''Warning converted to failure: '' @ hd w)), s')
          else (Inr result, s'))"

text \<open>\<open>ensure_fn = ensure if ensure is not None else (lambda a: True)\<close>\<close>

definition ensure_fn :: "'s pyfun option \<Rightarrow> 's pyfun" where
  "ensure_fn ensure = (case ensure of None \<Rightarrow> (\<lambda>a. ret (PBool True)) | Some p \<Rightarrow> p)"

text \<open>
  \<open>maybe ensure allow_warning f args\<close> is the call \<open>maybe(ensure, allow_warning)(f)(*args, **kwargs)\<close>,
  and \<open>perhaps dflt ensure allow_warning f args\<close> is
  \<open>perhaps(default, ensure, allow_warning)(f)(*args, **kwargs)\<close>.
\<close>

definition maybe :: "'s pyfun option \<Rightarrow> bool \<Rightarrow> 's target \<Rightarrow> args \<Rightarrow> ('s, pyval) py" where
  "maybe ensure allow_warning f args s =
     (case with_warning_capture (f args) allow_warning s of
        (Inl e, s1) \<Rightarrow> if isinstance_Exception e then (Inr nothing, s1) else (Inl e, s1)
      | (Inr result, s1) \<Rightarrow>
          (case ensure_fn ensure result s1 of
             (Inl e, s2) \<Rightarrow> if isinstance_Exception e then (Inr nothing, s2) else (Inl e, s2)
           | (Inr ok, s2) \<Rightarrow>
               if not_true ok then (Inr nothing, s2) else (Inr (just result), s2)))"

definition perhaps ::
  "pyval \<Rightarrow> 's pyfun option \<Rightarrow> bool \<Rightarrow> 's target \<Rightarrow> args \<Rightarrow> ('s, pyval) py" where
  "perhaps dflt ensure allow_warning f args s =
     (case with_warning_capture (f args) allow_warning s of
        (Inl e, s1) \<Rightarrow> if isinstance_Exception e then (Inr dflt, s1) else (Inl e, s1)
      | (Inr result, s1) \<Rightarrow>
          (case ensure_fn ensure result s1 of
             (Inl e, s2) \<Rightarrow> if isinstance_Exception e then (Inr dflt, s2) else (Inl e, s2)
           | (Inr ok, s2) \<Rightarrow>
               if not_true ok then (Inr dflt, s2) else (Inr result, s2)))"

section \<open>Vocabulary of the properties\<close>

text \<open>
  \<open>run_all cs s\<close> runs every computation of \<open>cs\<close> in order from the state \<open>s\<close>,
  whatever the outcomes, and gives the outcomes and the final state. It describes what
  the predicates of a list, or the items of a lazy sequence, do when each of them is
  evaluated.
\<close>

fun run_all :: "('s, 'a) py list \<Rightarrow> 's \<Rightarrow> (exn + 'a) list \<times> 's" where
  "run_all [] s = ([], s)"
| "run_all (c # cs) s =
     (case c s of (r, s') \<Rightarrow> (case run_all cs s' of (rs, s'') \<Rightarrow> (r # rs, s'')))"

text \<open>
  What \<open>or_\<close> takes for a "no" of a predicate: an exception that is an instance of
  \<open>Exception\<close>, or a returned object other than \<open>True\<close>.
\<close>

fun said_no :: "exn + pyval \<Rightarrow> bool" where
  "said_no (Inl e) = isinstance_Exception e"
| "said_no (Inr r) = not_true r"

text \<open>
  The chain combinator as the specification words it: the first step is applied with
  \<open>bind\<close> without looking at the starting value; before every later step the
  accumulated value is checked, and the run stops when it is \<open>Nothing\<close>.
\<close>

fun run_chain_rest :: "pyval \<Rightarrow> 's pyfun list \<Rightarrow> ('s, pyval) py" where
  "run_chain_rest acc [] s = (Inr acc, s)"
| "run_chain_rest acc (step # steps) s =
     (if acc = Nothing then (Inr acc, s)
      else (case bind acc step s of
              (Inl e, s') \<Rightarrow> (Inl e, s')
            | (Inr acc', s') \<Rightarrow> run_chain_rest acc' steps s'))"

fun run_chain_spec :: "pyval \<Rightarrow> 's pyfun list \<Rightarrow> ('s, pyval) py" where
  "run_chain_spec start [] s = (Inr start, s)"
| "run_chain_spec start (step # steps) s =
     (case bind start step s of
        (Inl e, s') \<Rightarrow> (Inl e, s')
      | (Inr acc, s') \<Rightarrow> run_chain_rest acc steps s')"

text \<open>
  A pipeline: a starting value and a list of stages, each of which applies \<open>fmap\<close>,
  \<open>bind\<close> or \<open>chain\<close> with user-supplied functions to the value the stage before
  returned, as in \<open>chain(m.fmap(f).bind(g), h, k)\<close>. An exception that leaves a stage
  leaves the pipeline. A function wrapped by \<open>maybe\<close> or \<open>perhaps\<close> and called with
  one positional argument is a step function like any other.
\<close>

datatype 's stage = FmapStage "'s pyfun" | BindStage "'s pyfun" | ChainStage "'s pyfun list"

fun run_stage :: "'s stage \<Rightarrow> 's pyfun" where
  "run_stage (FmapStage fn) m = fmap m fn"
| "run_stage (BindStage fn) m = bind m fn"
| "run_stage (ChainStage fns) m = chain m fns"

fun run_pipeline :: "pyval \<Rightarrow> 's stage list \<Rightarrow> ('s, pyval) py" where
  "run_pipeline m [] s = (Inr m, s)"
| "run_pipeline m (st # sts) s =
     (case run_stage st m s of
        (Inl e, s') \<Rightarrow> (Inl e, s')
      | (Inr m', s') \<Rightarrow> run_pipeline m' sts s')"

text \<open>The user-supplied functions of a pipeline.\<close>

fun stage_funs :: "'s stage \<Rightarrow> 's pyfun list" where
  "stage_funs (FmapStage fn) = [fn]"
| "stage_funs (BindStage fn) = [fn]"
| "stage_funs (ChainStage fns) = fns"

definition pipeline_funs :: "'s stage list \<Rightarrow> 's pyfun list" where
  "pipeline_funs stages = concat (map stage_funs stages)"

definition maybe_step :: "'s pyfun option \<Rightarrow> bool \<Rightarrow> 's target \<Rightarrow> 's pyfun" where
  "maybe_step ensure allow_warning f v = maybe ensure allow_warning f ([v], [])"

definition perhaps_step ::
  "pyval \<Rightarrow> 's pyfun option \<Rightarrow> bool \<Rightarrow> 's target \<Rightarrow> 's pyfun" where
  "perhaps_step dflt ensure allow_warning f v = perhaps dflt ensure allow_warning f ([v], [])"

section \<open>Example functions\<close>

text \<open>
  Call-counting stubs: the state is the number of calls of user-supplied functions made
  so far. \<open>counted f\<close> is a step function or predicate that computes \<open>f\<close> and counts
  the call, \<open>counted_target f\<close> a target for the wrappers, and \<open>yield m\<close> an item of a
  lazy sequence that counts its evaluation.
\<close>

definition counted :: "(pyval \<Rightarrow> exn + pyval) \<Rightarrow> nat pyfun" where
  "counted f v n = (f v, Suc n)"

definition counted_target :: "(args \<Rightarrow> (exn + pyval) \<times> warning list) \<Rightarrow> nat target" where
  "counted_target f a n = (f a, Suc n)"

definition yield :: "pyval \<Rightarrow> (nat, pyval) py" where
  "yield m n = (Inr m, Suc n)"

fun add_one :: "pyval \<Rightarrow> exn + pyval" where
  "add_one (PInt i) = Inr (PInt (i + 1))"
| "add_one _ = Inl (TypeError ''unsupported operand'')"

fun just_add_one :: "pyval \<Rightarrow> exn + pyval" where
  "just_add_one (PInt i) = Inr (Just (PInt (i + 1)))"
| "just_add_one _ = Inl (TypeError ''unsupported operand'')"

definition return_None :: "pyval \<Rightarrow> exn + pyval" where
  "return_None v = Inr PNone"

definition return_Nothing :: "pyval \<Rightarrow> exn + pyval" where
  "return_Nothing v = Inr Nothing"

definition return_one :: "pyval \<Rightarrow> exn + pyval" where
  "return_one v = Inr (PInt 1)"

definition return_True :: "pyval \<Rightarrow> exn + pyval" where
  "return_True v = Inr (PBool True)"

definition raise_ValueError :: "pyval \<Rightarrow> exn + pyval" where
  "raise_ValueError v = Inl (OtherException ''ValueError'')"

definition raise_KeyboardInterrupt :: "pyval \<Rightarrow> exn + pyval" where
  "raise_KeyboardInterrupt v = Inl KeyboardInterrupt"

definition raise_SystemExit :: "pyval \<Rightarrow> exn + pyval" where
  "raise_SystemExit v = Inl SystemExit"

fun is_positive :: "pyval \<Rightarrow> exn + pyval" where
  "is_positive (PInt i) = Inr (PBool (i > 0))"
| "is_positive _ = Inl (TypeError ''not supported between instances'')"

text \<open>Targets: the outcome of the call and the warnings it issues.\<close>

fun first_plus_one :: "args \<Rightarrow> (exn + pyval) \<times> warning list" where
  "first_plus_one (PInt i # _, _) = (Inr (PInt (i + 1)), [])"
| "first_plus_one _ = (Inl (TypeError ''unsupported operand''), [])"

definition warn_and_return :: "args \<Rightarrow> (exn + pyval) \<times> warning list" where
  "warn_and_return a = (Inr (PInt 7), [''deprecated''])"

definition target_ValueError :: "args \<Rightarrow> (exn + pyval) \<times> warning list" where
  "target_ValueError a = (Inl (OtherException ''ValueError''), [])"

definition target_KeyboardInterrupt :: "args \<Rightarrow> (exn + pyval) \<times> warning list" where
  "target_KeyboardInterrupt a = (Inl KeyboardInterrupt, [])"

definition target_SystemExit :: "args \<Rightarrow> (exn + pyval) \<times> warning list" where
  "target_SystemExit a = (Inl SystemExit, [])"

section \<open>Basic facts\<close>

lemma ret_apply [simp]: "ret v s = (Inr v, s)"
  by (simp add: ret_def)

lemma raise_apply [simp]: "raise e s = (Inl e, s)"
  by (simp add: raise_def)

lemma fmap_Just:
  "fmap (Just v) fn s =
     (case fn v s of
        (Inl e, s') \<Rightarrow> if isinstance_Exception e then (Inr Nothing, s') else (Inl e, s')
      | (Inr r, s') \<Rightarrow> (Inr (Just r), s'))"
  by (simp add: try_except_Exception_def and_then_def ret_def just_def split: prod.splits sum.splits)

lemma bind_Just:
  "bind (Just v) fn s =
     (case fn v s of
        (Inl e, s') \<Rightarrow> if isinstance_Exception e then (Inr Nothing, s') else (Inl e, s')
      | (Inr r, s') \<Rightarrow> if isinstance_Maybe r then (Inr r, s') else (Inr Nothing, s'))"
  by (simp add: try_except_Exception_def and_then_def ret_def raise_def split: prod.splits sum.splits)

lemma isinstance_Maybe_cases:
  assumes "isinstance_Maybe m"
  obtains "m = Nothing" | v where "m = Just v"
  using assms by (cases m) simp_all

lemma bind_returns_Maybe:
  "isinstance_Maybe m \<Longrightarrow> bind m fn s = (Inr r, s') \<Longrightarrow> isinstance_Maybe r"
  by (erule isinstance_Maybe_cases)
     (auto simp: bind_Just simp del: bind.simps(2) split: prod.splits sum.splits if_splits)

lemma bind_raises_no_Exception:
  "isinstance_Maybe m \<Longrightarrow> bind m fn s = (Inl e, s') \<Longrightarrow> \<not> isinstance_Exception e"
  by (erule isinstance_Maybe_cases)
     (auto simp: bind_Just simp del: bind.simps(2) split: prod.splits sum.splits if_splits)

lemma fmap_returns_Maybe:
  "isinstance_Maybe m \<Longrightarrow> fmap m fn s = (Inr r, s') \<Longrightarrow> isinstance_Maybe r"
  by (erule isinstance_Maybe_cases)
     (auto simp: fmap_Just ret_def simp del: fmap.simps(2) split: prod.splits sum.splits if_splits)

lemma fmap_raises_no_Exception:
  "isinstance_Maybe m \<Longrightarrow> fmap m fn s = (Inl e, s') \<Longrightarrow> \<not> isinstance_Exception e"
  by (erule isinstance_Maybe_cases)
     (auto simp: fmap_Just ret_def simp del: fmap.simps(2) split: prod.splits sum.splits if_splits)

lemma chain_Nothing [simp]: "chain Nothing fns s = (Inr Nothing, s)"
  by (cases fns) simp_all

lemma chain_Just_Cons:
  "chain (Just v) (fn # fns) s =
     (case bind (Just v) fn s of
        (Inl e, s') \<Rightarrow> (Inl e, s')
      | (Inr c, s') \<Rightarrow> chain c fns s')"
  by simp

lemma chain_returns_Maybe:
  "isinstance_Maybe m \<Longrightarrow> chain m fns s = (Inr r, s') \<Longrightarrow> isinstance_Maybe r"
proof (induction fns arbitrary: m s)
  case Nil
  then show ?case by simp
next
  case (Cons fn fns)
  from Cons.prems(1) show ?case
  proof (cases rule: isinstance_Maybe_cases)
    case 1
    with Cons.prems show ?thesis by simp
  next
    case (2 v)
    show ?thesis
    proof (cases "bind (Just v) fn s")
      case (Pair out s1)
      show ?thesis
      proof (cases out)
        case (Inl e)
        with Pair 2 Cons.prems show ?thesis by simp
      next
        case (Inr c)
        with Pair have b: "bind (Just v) fn s = (Inr c, s1)" by simp
        then have "isinstance_Maybe c" using bind_returns_Maybe [of "Just v"] by simp
        moreover from b 2 Cons.prems have "chain c fns s1 = (Inr r, s')" by simp
        ultimately show ?thesis by (rule Cons.IH)
      qed
    qed
  qed
qed

lemma chain_raises_no_Exception:
  "isinstance_Maybe m \<Longrightarrow> chain m fns s = (Inl e, s') \<Longrightarrow> \<not> isinstance_Exception e"
proof (induction fns arbitrary: m s)
  case Nil
  then show ?case by simp
next
  case (Cons fn fns)
  from Cons.prems(1) show ?case
  proof (cases rule: isinstance_Maybe_cases)
    case 1
    with Cons.prems show ?thesis by simp
  next
    case (2 v)
    show ?thesis
    proof (cases "bind (Just v) fn s")
      case (Pair out s1)
      show ?thesis
      proof (cases out)
        case (Inl e1)
        with Pair have b: "bind (Just v) fn s = (Inl e1, s1)" by simp
        then have "\<not> isinstance_Exception e1"
          using bind_raises_no_Exception [of "Just v"] by simp
        moreover from b 2 Cons.prems have "e1 = e" by simp
        ultimately show ?thesis by simp
      next
        case (Inr c)
        with Pair have b: "bind (Just v) fn s = (Inr c, s1)" by simp
        then have "isinstance_Maybe c" using bind_returns_Maybe [of "Just v"] by simp
        moreover from b 2 Cons.prems have "chain c fns s1 = (Inl e, s')" by simp
        ultimately show ?thesis by (rule Cons.IH)
      qed
    qed
  qed
qed

lemma run_chain_rest_Nothing [simp]: "run_chain_rest Nothing steps s = (Inr Nothing, s)"
  by (cases steps) simp_all

lemma chain_eq_run_chain_rest:
  "isinstance_Maybe acc \<Longrightarrow> chain acc steps s = run_chain_rest acc steps s"
proof (induction steps arbitrary: acc s)
  case Nil
  show ?case by simp
next
  case (Cons step steps)
  from Cons.prems show ?case
  proof (cases rule: isinstance_Maybe_cases)
    case 1
    then show ?thesis by simp
  next
    case (2 v)
    show ?thesis
    proof (cases "bind (Just v) step s")
      case (Pair out s1)
      show ?thesis
      proof (cases out)
        case (Inl e)
        with Pair 2 show ?thesis by simp
      next
        case (Inr c)
        with Pair have b: "bind (Just v) step s = (Inr c, s1)" by simp
        then have "isinstance_Maybe c" using bind_returns_Maybe [of "Just v"] by simp
        then have "chain c steps s1 = run_chain_rest c steps s1" by (rule Cons.IH)
        with b 2 show ?thesis by simp
      qed
    qed
  qed
qed

lemma chain_eq_run_chain_spec:
  "isinstance_Maybe start \<Longrightarrow> chain start steps s = run_chain_spec start steps s"
proof (cases steps)
  case Nil
  then show ?thesis by simp
next
  case (Cons step rest)
  assume "isinstance_Maybe start"
  then show ?thesis
  proof (cases rule: isinstance_Maybe_cases)
    case 1
    with Cons show ?thesis by simp
  next
    case (2 v)
    show ?thesis
    proof (cases "bind (Just v) step s")
      case (Pair out s1)
      show ?thesis
      proof (cases out)
        case (Inl e)
        with Pair 2 Cons show ?thesis by simp
      next
        case (Inr c)
        with Pair have b: "bind (Just v) step s = (Inr c, s1)" by simp
        then have "isinstance_Maybe c" using bind_returns_Maybe [of "Just v"] by simp
        then have "chain c rest s1 = run_chain_rest c rest s1"
          by (rule chain_eq_run_chain_rest)
        with b 2 Cons show ?thesis by simp
      qed
    qed
  qed
qed

lemma chain_short_circuit:
  "chain start steps s = (Inr Nothing, s1) \<Longrightarrow> chain start (steps @ later) s = (Inr Nothing, s1)"
proof (induction steps arbitrary: start s)
  case Nil
  then show ?case by simp
next
  case (Cons step steps)
  show ?case
  proof (cases "is_nothing start")
    case (Inl e)
    with Cons.prems show ?thesis by simp
  next
    case (Inr b)
    show ?thesis
    proof (cases b)
      case True
      with Inr Cons.prems show ?thesis by simp
    next
      case False
      show ?thesis
      proof (cases "bind start step s")
        case (Pair out s')
        show ?thesis
        proof (cases out)
          case (Inl e)
          with Pair Inr False Cons.prems show ?thesis by simp
        next
          case (Inr c)
          with Pair \<open>is_nothing start = Inr b\<close> False Cons.prems
          have "chain c steps s' = (Inr Nothing, s1)" by simp
          then have "chain c (steps @ later) s' = (Inr Nothing, s1)" by (rule Cons.IH)
          with Pair Inr \<open>is_nothing start = Inr b\<close> False show ?thesis by simp
        qed
      qed
    qed
  qed
qed

lemma chain_snoc:
  "isinstance_Maybe start \<Longrightarrow>
   chain start (steps @ [g]) s = and_then (chain start steps) (\<lambda>c. bind c g) s"
proof (induction steps arbitrary: start s)
  case Nil
  then show ?case
    by (cases rule: isinstance_Maybe_cases)
       (simp_all add: and_then_def split: prod.splits sum.splits)
next
  case (Cons step steps)
  from Cons.prems show ?case
  proof (cases rule: isinstance_Maybe_cases)
    case 1
    then show ?thesis by (simp add: and_then_def)
  next
    case (2 v)
    show ?thesis
    proof (cases "bind (Just v) step s")
      case (Pair out s1)
      show ?thesis
      proof (cases out)
        case (Inl e)
        with Pair 2 show ?thesis by (simp add: and_then_def)
      next
        case (Inr c)
        with Pair have b: "bind (Just v) step s = (Inr c, s1)" by simp
        then have "isinstance_Maybe c" using bind_returns_Maybe [of "Just v"] by simp
        then have "chain c (steps @ [g]) s1 = and_then (chain c steps) (\<lambda>c. bind c g) s1"
          by (rule Cons.IH)
        with b 2 show ?thesis by (simp add: and_then_def)
      qed
    qed
  qed
qed

lemma sequence_loop_all_Just:
  "run_all items s = (map (\<lambda>v. Inr (Just v)) vs, s') \<Longrightarrow>
   sequence_loop items out s = (Inr (Just (PList (out @ vs))), s')"
proof (induction items arbitrary: out s vs)
  case Nil
  then show ?case by (simp add: just_def)
next
  case (Cons item items)
  obtain r s1 where i: "item s = (r, s1)" by (cases "item s")
  obtain rs s2 where r0: "run_all items s1 = (rs, s2)" by (cases "run_all items s1")
  from Cons.prems i r0 have e: "map (\<lambda>v. Inr (Just v)) vs = r # rs" and "s2 = s'"
    by simp_all
  with r0 have r: "run_all items s1 = (rs, s')" by simp
  from e obtain v vs' where vs: "vs = v # vs'" "r = Inr (Just v)" "rs = map (\<lambda>v. Inr (Just v)) vs'"
    by (cases vs) auto
  from r vs have "sequence_loop items (out @ [v]) s1 = (Inr (Just (PList ((out @ [v]) @ vs'))), s')"
    by (intro Cons.IH) simp
  with i vs show ?case by simp
qed

lemma sequence_loop_first_Nothing:
  "run_all pre s = (map (\<lambda>v. Inr (Just v)) vs, s1) \<Longrightarrow> item s1 = (Inr Nothing, s2) \<Longrightarrow>
   sequence_loop (pre @ item # rest) out s = (Inr Nothing, s2)"
proof (induction pre arbitrary: out s vs)
  case Nil
  then show ?case by simp
next
  case (Cons p pre)
  obtain r s' where i: "p s = (r, s')" by (cases "p s")
  obtain rs s3 where r0: "run_all pre s' = (rs, s3)" by (cases "run_all pre s'")
  from Cons.prems(1) i r0 have e: "map (\<lambda>v. Inr (Just v)) vs = r # rs" and "s3 = s1"
    by simp_all
  with r0 have r: "run_all pre s' = (rs, s1)" by simp
  from e obtain v vs' where vs: "vs = v # vs'" "r = Inr (Just v)" "rs = map (\<lambda>v. Inr (Just v)) vs'"
    by (cases vs) auto
  from r vs Cons.prems(2)
  have "sequence_loop (pre @ item # rest) (out @ [v]) s' = (Inr Nothing, s2)"
    by (intro Cons.IH) simp_all
  with i vs show ?case by simp
qed

lemma and_pred_append:
  "run_all (map (\<lambda>p. p a) pre) s = (rs, s1) \<Longrightarrow> list_all (\<lambda>r. r = Inr (PBool True)) rs \<Longrightarrow>
   and_pred (pre @ preds) a s = and_pred preds a s1"
proof (induction pre arbitrary: s rs)
  case Nil
  then show ?case by simp
next
  case (Cons p pre)
  obtain r s' where i: "p a s = (r, s')" by (cases "p a s")
  obtain rs' s3 where r0: "run_all (map (\<lambda>p. p a) pre) s' = (rs', s3)"
    by (cases "run_all (map (\<lambda>p. p a) pre) s'")
  from Cons.prems(1) i r0 have e: "rs = r # rs'" and "s3 = s1"
    by simp_all
  with r0 have r: "run_all (map (\<lambda>p. p a) pre) s' = (rs', s1)" by simp
  from e Cons.prems(2) have t: "r = Inr (PBool True)" "list_all (\<lambda>r. r = Inr (PBool True)) rs'"
    by simp_all
  from r t(2) have "and_pred (pre @ preds) a s' = and_pred preds a s1"
    by (rule Cons.IH)
  with i t(1) show ?case by (simp add: not_true_def)
qed

lemma or_pred_append:
  "run_all (map (\<lambda>p. p a) pre) s = (rs, s1) \<Longrightarrow> list_all said_no rs \<Longrightarrow>
   or_pred (pre @ preds) a s = or_pred preds a s1"
proof (induction pre arbitrary: s rs)
  case Nil
  then show ?case by simp
next
  case (Cons p pre)
  obtain r s' where i: "p a s = (r, s')" by (cases "p a s")
  obtain rs' s3 where r0: "run_all (map (\<lambda>p. p a) pre) s' = (rs', s3)"
    by (cases "run_all (map (\<lambda>p. p a) pre) s'")
  from Cons.prems(1) i r0 have e: "rs = r # rs'" and "s3 = s1"
    by simp_all
  with r0 have r: "run_all (map (\<lambda>p. p a) pre) s' = (rs', s1)" by simp
  from e Cons.prems(2) have t: "said_no r" "list_all said_no rs'"
    by simp_all
  from r t(2) have "or_pred (pre @ preds) a s' = or_pred preds a s1"
    by (rule Cons.IH)
  with i t(1) show ?case by (cases r) (simp_all add: not_true_def)
qed

lemma with_warning_capture_eq:
  "with_warning_capture fn allow_warning s =
     (case fn s of
        ((Inl e, w), s') \<Rightarrow> (Inl e, s')
      | ((Inr result, w), s') \<Rightarrow>
          if w = [] \<or> allow_warning then (Inr result, s')
          else (Inl (RuntimeError (''Warning converted to failure: '' @ hd w)), s'))"
  by (simp add: with_warning_capture_def split: prod.splits sum.splits)

lemma maybe_target_raises:
  "f a s = ((Inl e, w), s') \<Longrightarrow>
   maybe ensure allow_warning f a s =
     (if isinstance_Exception e then (Inr Nothing, s') else (Inl e, s'))"
  by (simp add: maybe_def with_warning_capture_eq nothing_def)

lemma maybe_warning:
  "f a s = ((Inr r, w), s') \<Longrightarrow> w \<noteq> [] \<Longrightarrow> \<not> allow_warning \<Longrightarrow>
   maybe ensure allow_warning f a s = (Inr Nothing, s')"
  by (simp add: maybe_def with_warning_capture_eq nothing_def)

lemma maybe_validated:
  "f a s = ((Inr r, w), s') \<Longrightarrow> w = [] \<or> allow_warning \<Longrightarrow>
   maybe ensure allow_warning f a s =
     (case ensure_fn ensure r s' of
        (Inl e, s'') \<Rightarrow> if isinstance_Exception e then (Inr Nothing, s'') else (Inl e, s'')
      | (Inr ok, s'') \<Rightarrow> if ok = PBool True then (Inr (Just r), s'') else (Inr Nothing, s''))"
  by (auto simp: maybe_def with_warning_capture_eq nothing_def just_def not_true_def
      split: prod.splits sum.splits)

lemma maybe_Just_iff:
  "(maybe ensure allow_warning f a s = (Inr (Just r), s'')) =
     (\<exists>w s'. f a s = ((Inr r, w), s') \<and> (w = [] \<or> allow_warning)
        \<and> ensure_fn ensure r s' = (Inr (PBool True), s''))"
proof (cases "f a s")
  case (Pair ow s1)
  obtain out w where ow: "ow = (out, w)" by (cases ow)
  show ?thesis
  proof (cases out)
    case (Inl e)
    with Pair ow have "f a s = ((Inl e, w), s1)" by simp
    then show ?thesis by (simp add: maybe_target_raises)
  next
    case (Inr r1)
    with Pair ow have fr: "f a s = ((Inr r1, w), s1)" by simp
    show ?thesis
    proof (cases "w = [] \<or> allow_warning")
      case False
      with fr show ?thesis by (auto simp: maybe_warning)
    next
      case True
      with fr show ?thesis
        by (auto simp: maybe_validated split: prod.splits sum.splits if_splits)
    qed
  qed
qed

lemma perhaps_target_raises:
  "f a s = ((Inl e, w), s') \<Longrightarrow>
   perhaps dflt ensure allow_warning f a s =
     (if isinstance_Exception e then (Inr dflt, s') else (Inl e, s'))"
  by (simp add: perhaps_def with_warning_capture_eq)

lemma perhaps_warning:
  "f a s = ((Inr r, w), s') \<Longrightarrow> w \<noteq> [] \<Longrightarrow> \<not> allow_warning \<Longrightarrow>
   perhaps dflt ensure allow_warning f a s = (Inr dflt, s')"
  by (simp add: perhaps_def with_warning_capture_eq)

lemma perhaps_validated:
  "f a s = ((Inr r, w), s') \<Longrightarrow> w = [] \<or> allow_warning \<Longrightarrow>
   perhaps dflt ensure allow_warning f a s =
     (case ensure_fn ensure r s' of
        (Inl e, s'') \<Rightarrow> if isinstance_Exception e then (Inr dflt, s'') else (Inl e, s'')
      | (Inr ok, s'') \<Rightarrow> if ok = PBool True then (Inr r, s'') else (Inr dflt, s''))"
  by (auto simp: perhaps_def with_warning_capture_eq not_true_def
      split: prod.splits sum.splits)

lemma example_targets:
  "counted_target first_plus_one ([PInt 1], []) 0 = ((Inr (PInt 2), []), 1)"
  "counted_target warn_and_return ([], []) 0 = ((Inr (PInt 7), [''deprecated'']), 1)"
  "counted_target target_ValueError ([], []) 0 = ((Inl (OtherException ''ValueError''), []), 1)"
  "counted_target target_SystemExit ([], []) 0 = ((Inl SystemExit, []), 1)"
  "counted_target target_KeyboardInterrupt ([], []) 0 = ((Inl KeyboardInterrupt, []), 1)"
  by (simp_all add: counted_target_def warn_and_return_def target_ValueError_def
      target_SystemExit_def target_KeyboardInterrupt_def)

lemma example_validators:
  "ensure_fn (Some (counted is_positive)) (PInt 2) 1 = (Inr (PBool True), 2)"
  "ensure_fn None (PInt 7) (1::nat) = (Inr (PBool True), 1)"
  "ensure_fn (Some (counted raise_ValueError)) (PInt 2) 1 = (Inl (OtherException ''ValueError''), 2)"
  "ensure_fn (Some (counted return_one)) (PInt 2) 1 = (Inr (PInt 1), 2)"
  "ensure_fn (Some (counted raise_SystemExit)) (PInt 2) 1 = (Inl SystemExit, 2)"
  "ensure_fn (Some (counted raise_KeyboardInterrupt)) (PInt 2) 1 = (Inl KeyboardInterrupt, 2)"
  by (simp_all add: ensure_fn_def counted_def raise_ValueError_def return_one_def
      raise_SystemExit_def raise_KeyboardInterrupt_def)

lemma and_then_apply_cong:
  "m s = m' s \<Longrightarrow> and_then m k s = and_then m' k s"
  by (simp add: and_then_def)

lemma chain_eq_foldl:
  "isinstance_Maybe start \<Longrightarrow>
   chain start steps s = foldl (\<lambda>acc step. and_then acc (\<lambda>c. bind c step)) (ret start) steps s"
proof (induction steps arbitrary: s rule: rev_induct)
  case Nil
  show ?case by simp
next
  case (snoc g steps)
  have "chain start (steps @ [g]) s = and_then (chain start steps) (\<lambda>c. bind c g) s"
    using snoc.prems by (rule chain_snoc)
  also have "\<dots> = and_then (foldl (\<lambda>acc step. and_then acc (\<lambda>c. bind c step)) (ret start) steps)
      (\<lambda>c. bind c g) s"
    using snoc.IH [OF snoc.prems, of s] by (rule and_then_apply_cong)
  finally show ?case by (simp del: ret_apply)
qed

lemma bind_raise_origin:
  "isinstance_Maybe m \<Longrightarrow> bind m fn s = (Inl e, s') \<Longrightarrow> \<exists>v t. fn v t = (Inl e, s')"
  by (erule isinstance_Maybe_cases)
     (auto simp: bind_Just simp del: bind.simps(2) split: prod.splits sum.splits if_splits)

lemma fmap_raise_origin:
  "isinstance_Maybe m \<Longrightarrow> fmap m fn s = (Inl e, s') \<Longrightarrow> \<exists>v t. fn v t = (Inl e, s')"
  by (erule isinstance_Maybe_cases)
     (auto simp: fmap_Just simp del: fmap.simps(2) split: prod.splits sum.splits if_splits)

lemma chain_raise_origin:
  "isinstance_Maybe m \<Longrightarrow> chain m fns s = (Inl e, s') \<Longrightarrow>
   \<exists>fn\<in>set fns. \<exists>v t. fn v t = (Inl e, s')"
proof (induction fns arbitrary: m s)
  case Nil
  then show ?case by simp
next
  case (Cons fn fns)
  from Cons.prems(1) show ?case
  proof (cases rule: isinstance_Maybe_cases)
    case 1
    with Cons.prems show ?thesis by simp
  next
    case (2 v)
    show ?thesis
    proof (cases "bind (Just v) fn s")
      case (Pair out s1)
      show ?thesis
      proof (cases out)
        case (Inl e1)
        with Pair have b: "bind (Just v) fn s = (Inl e1, s1)" by simp
        with 2 Cons.prems have "e1 = e" "s1 = s'" by simp_all
        with b have "bind (Just v) fn s = (Inl e, s')" by simp
        then have "\<exists>v t. fn v t = (Inl e, s')"
          using bind_raise_origin [of "Just v"] by simp
        then show ?thesis by auto
      next
        case (Inr c)
        with Pair have b: "bind (Just v) fn s = (Inr c, s1)" by simp
        then have "isinstance_Maybe c" using bind_returns_Maybe [of "Just v"] by simp
        moreover from b 2 Cons.prems have "chain c fns s1 = (Inl e, s')" by simp
        ultimately have "\<exists>fn\<in>set fns. \<exists>v t. fn v t = (Inl e, s')" by (rule Cons.IH)
        then show ?thesis by auto
      qed
    qed
  qed
qed

lemma run_stage_returns_Maybe:
  "isinstance_Maybe m \<Longrightarrow> run_stage st m s = (Inr r, s') \<Longrightarrow> isinstance_Maybe r"
  by (cases st) (auto dest: fmap_returns_Maybe bind_returns_Maybe chain_returns_Maybe)

lemma run_stage_raises:
  "isinstance_Maybe m \<Longrightarrow> run_stage st m s = (Inl e, s') \<Longrightarrow>
   \<not> isinstance_Exception e \<and> (\<exists>fn\<in>set (stage_funs st). \<exists>v t. fn v t = (Inl e, s'))"
  by (cases st)
     (auto dest: fmap_raises_no_Exception bind_raises_no_Exception chain_raises_no_Exception
        fmap_raise_origin bind_raise_origin chain_raise_origin)

lemma run_pipeline_returns_Maybe:
  "isinstance_Maybe m \<Longrightarrow> run_pipeline m stages s = (Inr r, s') \<Longrightarrow> isinstance_Maybe r"
proof (induction stages arbitrary: m s)
  case Nil
  then show ?case by simp
next
  case (Cons st stages)
  show ?case
  proof (cases "run_stage st m s")
    case (Pair out s1)
    show ?thesis
    proof (cases out)
      case (Inl e)
      with Pair Cons.prems show ?thesis by simp
    next
      case (Inr c)
      with Pair have b: "run_stage st m s = (Inr c, s1)" by simp
      with Cons.prems(1) have "isinstance_Maybe c" by (rule run_stage_returns_Maybe)
      moreover from b Cons.prems have "run_pipeline c stages s1 = (Inr r, s')" by simp
      ultimately show ?thesis by (rule Cons.IH)
    qed
  qed
qed

lemma run_pipeline_raises:
  "isinstance_Maybe m \<Longrightarrow> run_pipeline m stages s = (Inl e, s') \<Longrightarrow>
   \<not> isinstance_Exception e \<and> (\<exists>fn\<in>set (pipeline_funs stages). \<exists>v t. fn v t = (Inl e, s'))"
proof (induction stages arbitrary: m s)
  case Nil
  then show ?case by simp
next
  case (Cons st stages)
  show ?case
  proof (cases "run_stage st m s")
    case (Pair out s1)
    show ?thesis
    proof (cases out)
      case (Inl e1)
      with Pair Cons.prems have b: "run_stage st m s = (Inl e, s')" by simp
      with Cons.prems(1) have
        "\<not> isinstance_Exception e \<and> (\<exists>fn\<in>set (stage_funs st). \<exists>v t. fn v t = (Inl e, s'))"
        by (rule run_stage_raises)
      then show ?thesis by (auto simp: pipeline_funs_def)
    next
      case (Inr c)
      with Pair have b: "run_stage st m s = (Inr c, s1)" by simp
      with Cons.prems(1) have "isinstance_Maybe c" by (rule run_stage_returns_Maybe)
      moreover from b Cons.prems have "run_pipeline c stages s1 = (Inl e, s')" by simp
      ultimately have
        "\<not> isinstance_Exception e
         \<and> (\<exists>fn\<in>set (pipeline_funs stages). \<exists>v t. fn v t = (Inl e, s'))"
        by (rule Cons.IH)
      then show ?thesis by (auto simp: pipeline_funs_def)
    qed
  qed
qed

lemma maybe_returns_Maybe:
  "maybe ensure allow_warning f a s = (Inr r, s') \<Longrightarrow> isinstance_Maybe r"
  by (auto simp: maybe_def nothing_def just_def split: prod.splits sum.splits if_splits)

lemma maybe_raises:
  "maybe ensure allow_warning f a s = (Inl e, s') \<Longrightarrow>
   \<not> isinstance_Exception e
   \<and> ((\<exists>w. f a s = ((Inl e, w), s')) \<or> (\<exists>r t. ensure_fn ensure r t = (Inl e, s')))"
  by (auto simp: maybe_def with_warning_capture_eq split: prod.splits sum.splits if_splits)

lemma perhaps_raises:
  "perhaps dflt ensure allow_warning f a s = (Inl e, s') \<Longrightarrow>
   \<not> isinstance_Exception e
   \<and> ((\<exists>w. f a s = ((Inl e, w), s')) \<or> (\<exists>r t. ensure_fn ensure r t = (Inl e, s')))"
  by (auto simp: perhaps_def with_warning_capture_eq split: prod.splits sum.splits if_splits)

section \<open>Properties of core.py\<close>

text \<open>
  C10. For every raw nullable value \<open>x\<close>, the null marker included,
  \<open>from_optional(x).to_optional()\<close> returns \<open>x\<close>: \<open>None\<close> becomes \<open>Nothing\<close>
  and then \<open>None\<close> again, any other value \<open>x\<close> becomes \<open>Just(x)\<close> and then \<open>x\<close> again.
\<close>

theorem from_optional_to_optional:
  "to_optional (from_optional x) = Inr x
   \<and> from_optional PNone = Nothing
   \<and> to_optional Nothing = Inr PNone
   \<and> from_optional x = (if x = PNone then Nothing else Just x)"
  by (simp add: from_optional_def just_def nothing_def)

text \<open>
  C1, as the code has it. For every value \<open>v\<close> and every function \<open>fn\<close>: when
  \<open>fn(v)\<close> returns a value \<open>r\<close>, \<open>Just(v).fmap(fn)\<close> returns \<open>Just(r)\<close>, whatever
  \<open>r\<close> is. The result is built with the raw constructor \<open>just\<close>, so a returned
  \<open>None\<close> is wrapped as \<open>Just(None)\<close>.
\<close>

theorem fmap_Just_wraps:
  "fn v s = (Inr r, s') \<Longrightarrow> fmap (Just v) fn s = (Inr (Just r), s')"
  by (simp add: try_except_Exception_def and_then_def ret_def just_def)

theorem fmap_Just_wraps_witness:
  "counted return_None (PInt 1) 0 = (Inr PNone, 1)
   \<and> fmap (Just (PInt 1)) (counted return_None) 0 = (Inr (Just PNone), 1)
   \<and> counted add_one (PInt 1) 0 = (Inr (PInt 2), 1)
   \<and> fmap (Just (PInt 1)) (counted add_one) 0 = (Inr (Just (PInt 2)), 1)"
proof -
  have a: "counted return_None (PInt 1) 0 = (Inr PNone, 1)"
    by (simp add: counted_def return_None_def)
  have b: "counted add_one (PInt 1) 0 = (Inr (PInt 2), 1)"
    by (simp add: counted_def)
  show ?thesis
    using a b fmap_Just_wraps [of "counted return_None" "PInt 1" 0 PNone 1]
      fmap_Just_wraps [of "counted add_one" "PInt 1" 0 "PInt 2" 1]
    by simp
qed

text \<open>
  C1, as the claim states it, fails: a function that returns \<open>None\<close> gives
  \<open>Just(None)\<close>, not \<open>Nothing\<close>, although \<open>from_optional(None)\<close> is \<open>Nothing\<close>.
\<close>

theorem fmap_None_counterexample:
  "counted return_None (PInt 1) 0 = (Inr PNone, 1)
   \<and> fmap (Just (PInt 1)) (counted return_None) 0 = (Inr (Just PNone), 1)
   \<and> fmap (Just (PInt 1)) (counted return_None) 0 \<noteq> (Inr Nothing, 1)
   \<and> from_optional PNone = Nothing"
  by (simp add: counted_def return_None_def try_except_Exception_def and_then_def ret_def
      just_def from_optional_def nothing_def)

text \<open>
  C3, as the code has it. \<open>bind\<close> on \<open>Nothing\<close> returns \<open>Nothing\<close> for every
  function. On \<open>Just(v)\<close> it returns \<open>Nothing\<close> when \<open>fn(v)\<close> raises an exception that
  is an instance of \<open>Exception\<close>, or returns an object that is neither a \<open>Just\<close> nor
  \<open>Nothing\<close>; it returns exactly what \<open>fn(v)\<close> returned, with no further wrapping,
  when that is a \<open>Maybe\<close>; and an exception outside \<open>Exception\<close> leaves \<open>bind\<close>.
\<close>

theorem bind_spec:
  "bind Nothing fn s = (Inr Nothing, s)
   \<and> (fn v s = (Inl e, s') \<and> isinstance_Exception e \<longrightarrow> bind (Just v) fn s = (Inr Nothing, s'))
   \<and> (fn v s = (Inl e, s') \<and> \<not> isinstance_Exception e \<longrightarrow> bind (Just v) fn s = (Inl e, s'))
   \<and> (fn v s = (Inr r, s') \<and> \<not> isinstance_Maybe r \<longrightarrow> bind (Just v) fn s = (Inr Nothing, s'))
   \<and> (fn v s = (Inr r, s') \<and> isinstance_Maybe r \<longrightarrow> bind (Just v) fn s = (Inr r, s'))"
  by (simp add: try_except_Exception_def and_then_def ret_def raise_def)

theorem bind_spec_witness:
  "bind Nothing (counted add_one) 0 = (Inr Nothing, 0)
   \<and> bind (Just (PInt 1)) (counted raise_ValueError) 0 = (Inr Nothing, 1)
   \<and> bind (Just (PInt 1)) (counted raise_KeyboardInterrupt) 0 = (Inl KeyboardInterrupt, 1)
   \<and> bind (Just (PInt 1)) (counted add_one) 0 = (Inr Nothing, 1)
   \<and> bind (Just (PInt 1)) (counted just_add_one) 0 = (Inr (Just (PInt 2)), 1)"
  using
    bind_spec [where fn = "counted add_one" and s = 0]
    bind_spec [where fn = "counted raise_ValueError" and s = 0 and v = "PInt 1"
      and e = "OtherException ''ValueError''" and s' = 1]
    bind_spec [where fn = "counted raise_KeyboardInterrupt" and s = 0 and v = "PInt 1"
      and e = KeyboardInterrupt and s' = 1]
    bind_spec [where fn = "counted add_one" and s = 0 and v = "PInt 1" and r = "PInt 2" and s' = 1]
    bind_spec [where fn = "counted just_add_one" and s = 0 and v = "PInt 1"
      and r = "Just (PInt 2)" and s' = 1]
  by (simp add: counted_def raise_ValueError_def raise_KeyboardInterrupt_def del: bind.simps)

text \<open>
  C3, as the claim states it, fails: when the function raises \<open>KeyboardInterrupt\<close>,
  \<open>bind\<close> does not return \<open>Nothing\<close>; the exception reaches the caller.
\<close>

theorem bind_KeyboardInterrupt_counterexample:
  "counted raise_KeyboardInterrupt (PInt 1) 0 = (Inl KeyboardInterrupt, 1)
   \<and> bind (Just (PInt 1)) (counted raise_KeyboardInterrupt) 0 = (Inl KeyboardInterrupt, 1)
   \<and> bind (Just (PInt 1)) (counted raise_KeyboardInterrupt) 0 \<noteq> (Inr Nothing, 1)"
  by (simp add: bind_Just counted_def raise_KeyboardInterrupt_def del: bind.simps(2))

text \<open>
  C6. When every item of the sequence is a \<open>Just\<close>, \<open>sequence\<close> returns \<open>Just\<close> of
  the list of the inner values, in order. When the items before some item are all
  \<open>Just\<close> and that item is \<open>Nothing\<close>, \<open>sequence\<close> returns \<open>Nothing\<close> in the state
  the evaluation of that item left: whatever the later items \<open>rest\<close> are, none of
  them is evaluated.
\<close>

theorem sequence_spec:
  "(run_all items s = (map (\<lambda>v. Inr (Just v)) vs, s')
      \<longrightarrow> sequence items s = (Inr (Just (PList vs)), s'))
   \<and> (run_all pre s = (map (\<lambda>v. Inr (Just v)) vs, s') \<and> item s' = (Inr Nothing, s'')
      \<longrightarrow> sequence (pre @ item # rest) s = (Inr Nothing, s''))"
  using sequence_loop_all_Just [of items s vs s' "[]"]
    sequence_loop_first_Nothing [of pre s vs s' item s'' rest "[]"]
  by (simp add: sequence_def)

theorem sequence_spec_witness:
  "sequence [yield (Just (PInt 1)), yield (Just (PInt 2)), yield (Just (PInt 3))] 0
     = (Inr (Just (PList [PInt 1, PInt 2, PInt 3])), 3)
   \<and> sequence [yield (Just (PInt 1)), yield Nothing, yield (Just (PInt 3))] 0
     = (Inr Nothing, 2)"
  using
    sequence_spec [where items = "[yield (Just (PInt 1)), yield (Just (PInt 2)), yield (Just (PInt 3))]"
      and s = 0 and vs = "[PInt 1, PInt 2, PInt 3]" and s' = 3 and pre = "[]" and item = "yield PNone"]
    sequence_spec [where items = "[]" and pre = "[yield (Just (PInt 1))]" and s = 0 and vs = "[PInt 1]"
      and s' = 1 and item = "yield Nothing" and s'' = 2 and rest = "[yield (Just (PInt 3))]"]
  by (simp add: yield_def numeral_2_eq_2 numeral_3_eq_3 del: sequence_loop.simps)

section \<open>Properties of predicates.py\<close>

text \<open>
  C9. \<open>not_undefined(x)\<close> is true exactly when \<open>not_null\<close>, \<open>not_nan\<close> and
  \<open>not_infinite\<close> all hold of \<open>x\<close>, that is, for every \<open>x\<close> but \<open>None\<close>, NaN and the
  two infinities. It is false for \<open>None\<close>, NaN, \<open>+inf\<close> and \<open>-inf\<close>, and true for
  \<open>0\<close>, \<open>0.0\<close>, the empty string, \<open>False\<close> and \<open>42\<close>.
\<close>

theorem not_undefined_spec:
  "not_undefined x = (not_null x \<and> not_nan x \<and> not_infinite x)
   \<and> not_undefined x = (x \<noteq> PNone \<and> x \<noteq> PFloat NaN \<and> x \<noteq> PFloat PosInf \<and> x \<noteq> PFloat NegInf)
   \<and> \<not> not_undefined PNone
   \<and> \<not> not_undefined (PFloat NaN)
   \<and> \<not> not_undefined (PFloat PosInf)
   \<and> \<not> not_undefined (PFloat NegInf)
   \<and> not_undefined (PInt 0)
   \<and> not_undefined (PFloat (Finite 0 0))
   \<and> not_undefined (PStr [])
   \<and> not_undefined (PBool False)
   \<and> not_undefined (PInt 42)"
proof -
  have nn: "not_null x = (x \<noteq> PNone)"
    by (simp add: not_null_def not_true_def)
  have na: "not_nan x = (x \<noteq> PFloat NaN)"
    by (cases x rule: math_isnan.cases) (simp_all add: not_nan_def)
  have ni: "not_infinite x = (x \<noteq> PFloat PosInf \<and> x \<noteq> PFloat NegInf)"
  proof (cases x)
    case (PFloat f)
    then show ?thesis by (cases f) (simp_all add: not_infinite_def)
  qed (simp_all add: not_infinite_def)
  have all: "not_undefined x = (not_null x \<and> not_nan x \<and> not_infinite x)"
    by (simp add: not_undefined_def)
  have ex: "\<not> not_undefined PNone" "\<not> not_undefined (PFloat NaN)"
    "\<not> not_undefined (PFloat PosInf)" "\<not> not_undefined (PFloat NegInf)"
    "not_undefined (PInt 0)" "not_undefined (PFloat (Finite 0 0))" "not_undefined (PStr [])"
    "not_undefined (PBool False)" "not_undefined (PInt 42)"
    by (simp_all add: not_undefined_def not_null_def not_true_def not_nan_def not_infinite_def)
  from all nn na ni ex show ?thesis by simp
qed

text \<open>
  C4, as the code has it. \<open>and_\<close>: when the predicates before \<open>p\<close> all returned
  \<open>True\<close>, an exception raised by \<open>p\<close> reaches the caller and a returned object other
  than \<open>True\<close> makes the result \<open>False\<close>; in both cases the later predicates \<open>rest\<close>
  are not evaluated. \<open>or_\<close>: an exception of a predicate that is an instance of
  \<open>Exception\<close> is swallowed and the next predicate is tried; when the predicates before
  \<open>p\<close> all returned an object other than \<open>True\<close> or raised such an exception, the
  result is \<open>True\<close> if \<open>p\<close> returns \<open>True\<close> (and \<open>rest\<close> is not evaluated); the result is
  \<open>False\<close> when every predicate did so; and an exception outside \<open>Exception\<close> raised by
  \<open>p\<close> reaches the caller.
\<close>

theorem and_or_spec:
  "(run_all (map (\<lambda>p. p a) pre) s = (rs, s') \<and> list_all (\<lambda>r. r = Inr (PBool True)) rs
      \<and> p a s' = (Inl e, s'')
      \<longrightarrow> and_pred (pre @ p # rest) a s = (Inl e, s''))
   \<and> (run_all (map (\<lambda>p. p a) pre) s = (rs, s') \<and> list_all (\<lambda>r. r = Inr (PBool True)) rs
      \<and> p a s' = (Inr r, s'') \<and> r \<noteq> PBool True
      \<longrightarrow> and_pred (pre @ p # rest) a s = (Inr (PBool False), s''))
   \<and> (p a s = (Inl e, s') \<and> isinstance_Exception e
      \<longrightarrow> or_pred (p # rest) a s = or_pred rest a s')
   \<and> (run_all (map (\<lambda>p. p a) pre) s = (rs, s') \<and> list_all said_no rs
      \<and> p a s' = (Inr (PBool True), s'')
      \<longrightarrow> or_pred (pre @ p # rest) a s = (Inr (PBool True), s''))
   \<and> (run_all (map (\<lambda>p. p a) pre) s = (rs, s') \<and> list_all said_no rs
      \<longrightarrow> or_pred pre a s = (Inr (PBool False), s'))
   \<and> (run_all (map (\<lambda>p. p a) pre) s = (rs, s') \<and> list_all said_no rs
      \<and> p a s' = (Inl e, s'') \<and> \<not> isinstance_Exception e
      \<longrightarrow> or_pred (pre @ p # rest) a s = (Inl e, s''))"
proof -
  have a1: "and_pred (pre @ p # rest) a s = (Inl e, s'')"
    if "run_all (map (\<lambda>p. p a) pre) s = (rs, s')" "list_all (\<lambda>r. r = Inr (PBool True)) rs"
      "p a s' = (Inl e, s'')"
    using that by (simp add: and_pred_append)
  have a2: "and_pred (pre @ p # rest) a s = (Inr (PBool False), s'')"
    if "run_all (map (\<lambda>p. p a) pre) s = (rs, s')" "list_all (\<lambda>r. r = Inr (PBool True)) rs"
      "p a s' = (Inr r, s'')" "r \<noteq> PBool True"
    using that by (simp add: and_pred_append not_true_def)
  have o0: "or_pred (p # rest) a s = or_pred rest a s'"
    if "p a s = (Inl e, s')" "isinstance_Exception e"
    using that by simp
  have o1: "or_pred (pre @ p # rest) a s = (Inr (PBool True), s'')"
    if "run_all (map (\<lambda>p. p a) pre) s = (rs, s')" "list_all said_no rs"
      "p a s' = (Inr (PBool True), s'')"
    using that by (simp add: or_pred_append)
  have o2: "or_pred pre a s = (Inr (PBool False), s')"
    if "run_all (map (\<lambda>p. p a) pre) s = (rs, s')" "list_all said_no rs"
    using that or_pred_append [of a pre s rs s' "[]"] by simp
  have o3: "or_pred (pre @ p # rest) a s = (Inl e, s'')"
    if "run_all (map (\<lambda>p. p a) pre) s = (rs, s')" "list_all said_no rs"
      "p a s' = (Inl e, s'')" "\<not> isinstance_Exception e"
    using that by (simp add: or_pred_append)
  from a1 a2 o0 o1 o2 o3 show ?thesis by blast
qed

theorem and_or_spec_witness:
  "and_pred [counted return_True, counted raise_ValueError, counted return_True] (PInt 5) 0
     = (Inl (OtherException ''ValueError''), 2)
   \<and> and_pred [counted return_True, counted return_one, counted return_True] (PInt 5) 0
     = (Inr (PBool False), 2)
   \<and> or_pred [counted raise_ValueError, counted return_True] (PInt 5) 0
     = or_pred [counted return_True] (PInt 5) 1
   \<and> or_pred [counted raise_ValueError, counted return_one, counted return_True, counted return_one]
        (PInt 5) 0 = (Inr (PBool True), 3)
   \<and> or_pred [counted raise_ValueError, counted return_one] (PInt 5) 0 = (Inr (PBool False), 2)
   \<and> or_pred [counted return_one, counted raise_SystemExit, counted return_True] (PInt 5) 0
     = (Inl SystemExit, 2)"
  using
    and_or_spec [where pre = "[counted return_True]" and a = "PInt 5" and s = 0
      and rs = "[Inr (PBool True)]" and s' = 1 and p = "counted raise_ValueError"
      and e = "OtherException ''ValueError''" and s'' = 2 and rest = "[counted return_True]"]
    and_or_spec [where pre = "[counted return_True]" and a = "PInt 5" and s = 0
      and rs = "[Inr (PBool True)]" and s' = 1 and p = "counted return_one"
      and r = "PInt 1" and s'' = 2 and rest = "[counted return_True]"]
    and_or_spec [where pre = "[]" and a = "PInt 5" and s = 0 and s' = 1
      and p = "counted raise_ValueError" and e = "OtherException ''ValueError''"
      and rest = "[counted return_True]"]
    and_or_spec [where pre = "[counted raise_ValueError, counted return_one]" and a = "PInt 5"
      and s = 0 and rs = "[Inl (OtherException ''ValueError''), Inr (PInt 1)]" and s' = 2
      and p = "counted return_True" and s'' = 3 and rest = "[counted return_one]"]
    and_or_spec [where pre = "[counted return_one]" and a = "PInt 5"
      and s = 0 and rs = "[Inr (PInt 1)]" and s' = 1
      and p = "counted raise_SystemExit" and e = SystemExit and s'' = 2
      and rest = "[counted return_True]"]
  by (simp add: counted_def return_True_def return_one_def raise_ValueError_def
      raise_SystemExit_def not_true_def numeral_2_eq_2 numeral_3_eq_3
      del: and_pred.simps or_pred.simps)

text \<open>
  C4, as the claim states it, fails: \<open>or_\<close> does not swallow a \<open>KeyboardInterrupt\<close>
  raised by its first predicate, and does not go on to the second, which returns \<open>True\<close>.
\<close>

theorem or_KeyboardInterrupt_counterexample:
  "counted raise_KeyboardInterrupt (PInt 5) 0 = (Inl KeyboardInterrupt, 1)
   \<and> or_pred [counted raise_KeyboardInterrupt, counted return_True] (PInt 5) 0
     = (Inl KeyboardInterrupt, 1)
   \<and> or_pred [counted raise_KeyboardInterrupt, counted return_True] (PInt 5) 0
     \<noteq> (Inr (PBool True), 2)"
  by (simp add: counted_def raise_KeyboardInterrupt_def return_True_def)

section \<open>Properties of wrappers.py\<close>

text \<open>
  C2, as the code has it. Let the call of the target \<open>f\<close> with the arguments \<open>a\<close> be
  made in the state \<open>s\<close>, with the flag \<open>allow_warning\<close> and the validator
  \<open>ensure_fn ensure\<close> (constantly \<open>True\<close> when \<open>ensure\<close> is \<open>None\<close>). The wrapped call
  returns \<open>Just(r)\<close> if and only if \<open>f\<close> returns \<open>r\<close>, no warning was recorded or
  \<open>allow_warning\<close> is true, and the validator returns exactly \<open>True\<close> on \<open>r\<close>. It returns
  \<open>Nothing\<close> when \<open>f\<close> raises an instance of \<open>Exception\<close>, when a warning was recorded
  and \<open>allow_warning\<close> is false, and when the validator raises an instance of
  \<open>Exception\<close> or returns an object other than \<open>True\<close>. An exception outside
  \<open>Exception\<close>, raised by \<open>f\<close> or by the validator, leaves the wrapped call.
\<close>

theorem maybe_spec:
  "(maybe ensure allow_warning f a s = (Inr (Just r), s'')) =
      (\<exists>w s'. f a s = ((Inr r, w), s') \<and> (w = [] \<or> allow_warning)
         \<and> ensure_fn ensure r s' = (Inr (PBool True), s''))
   \<and> (f a s = ((Inl e, w), s') \<and> isinstance_Exception e
        \<longrightarrow> maybe ensure allow_warning f a s = (Inr Nothing, s'))
   \<and> (f a s = ((Inr r, w), s') \<and> w \<noteq> [] \<and> \<not> allow_warning
        \<longrightarrow> maybe ensure allow_warning f a s = (Inr Nothing, s'))
   \<and> (f a s = ((Inr r, w), s') \<and> (w = [] \<or> allow_warning)
        \<and> ensure_fn ensure r s' = (Inl e, s'') \<and> isinstance_Exception e
        \<longrightarrow> maybe ensure allow_warning f a s = (Inr Nothing, s''))
   \<and> (f a s = ((Inr r, w), s') \<and> (w = [] \<or> allow_warning)
        \<and> ensure_fn ensure r s' = (Inr ok, s'') \<and> ok \<noteq> PBool True
        \<longrightarrow> maybe ensure allow_warning f a s = (Inr Nothing, s''))
   \<and> (f a s = ((Inl e, w), s') \<and> \<not> isinstance_Exception e
        \<longrightarrow> maybe ensure allow_warning f a s = (Inl e, s'))
   \<and> (f a s = ((Inr r, w), s') \<and> (w = [] \<or> allow_warning)
        \<and> ensure_fn ensure r s' = (Inl e, s'') \<and> \<not> isinstance_Exception e
        \<longrightarrow> maybe ensure allow_warning f a s = (Inl e, s''))
   \<and> ensure_fn None r s' = (Inr (PBool True), s')"
proof -
  have c1: "(maybe ensure allow_warning f a s = (Inr (Just r), s'')) =
      (\<exists>w s'. f a s = ((Inr r, w), s') \<and> (w = [] \<or> allow_warning)
         \<and> ensure_fn ensure r s' = (Inr (PBool True), s''))"
    by (rule maybe_Just_iff)
  have c2: "maybe ensure allow_warning f a s = (Inr Nothing, s')"
    if "f a s = ((Inl e, w), s')" "isinstance_Exception e"
    using that by (simp add: maybe_target_raises)
  have c3: "maybe ensure allow_warning f a s = (Inr Nothing, s')"
    if "f a s = ((Inr r, w), s')" "w \<noteq> []" "\<not> allow_warning"
    using that by (rule maybe_warning)
  have c4: "maybe ensure allow_warning f a s = (Inr Nothing, s'')"
    if "f a s = ((Inr r, w), s')" "w = [] \<or> allow_warning"
      "ensure_fn ensure r s' = (Inl e, s'')" "isinstance_Exception e"
    using that by (simp add: maybe_validated)
  have c5: "maybe ensure allow_warning f a s = (Inr Nothing, s'')"
    if "f a s = ((Inr r, w), s')" "w = [] \<or> allow_warning"
      "ensure_fn ensure r s' = (Inr ok, s'')" "ok \<noteq> PBool True"
    using that by (simp add: maybe_validated)
  have c6: "maybe ensure allow_warning f a s = (Inl e, s')"
    if "f a s = ((Inl e, w), s')" "\<not> isinstance_Exception e"
    using that by (simp add: maybe_target_raises)
  have c7: "maybe ensure allow_warning f a s = (Inl e, s'')"
    if "f a s = ((Inr r, w), s')" "w = [] \<or> allow_warning"
      "ensure_fn ensure r s' = (Inl e, s'')" "\<not> isinstance_Exception e"
    using that by (simp add: maybe_validated)
  have c8: "ensure_fn None r s' = (Inr (PBool True), s')"
    by (simp add: ensure_fn_def)
  from c1 c2 c3 c4 c5 c6 c7 c8 show ?thesis by blast
qed

theorem maybe_spec_witness:
  "maybe (Some (counted is_positive)) False (counted_target first_plus_one) ([PInt 1], []) 0
     = (Inr (Just (PInt 2)), 2)
   \<and> maybe None True (counted_target warn_and_return) ([], []) 0 = (Inr (Just (PInt 7)), 1)
   \<and> maybe None False (counted_target target_ValueError) ([], []) 0 = (Inr Nothing, 1)
   \<and> maybe None False (counted_target warn_and_return) ([], []) 0 = (Inr Nothing, 1)
   \<and> maybe (Some (counted raise_ValueError)) False (counted_target first_plus_one)
        ([PInt 1], []) 0 = (Inr Nothing, 2)
   \<and> maybe (Some (counted return_one)) False (counted_target first_plus_one)
        ([PInt 1], []) 0 = (Inr Nothing, 2)
   \<and> maybe None False (counted_target target_SystemExit) ([], []) 0 = (Inl SystemExit, 1)
   \<and> maybe (Some (counted raise_SystemExit)) False (counted_target first_plus_one)
        ([PInt 1], []) 0 = (Inl SystemExit, 2)"
proof -
  note t = example_targets and v = example_validators
  have c1: "maybe (Some (counted is_positive)) False (counted_target first_plus_one)
      ([PInt 1], []) 0 = (Inr (Just (PInt 2)), 2)"
    using t(1) v(1)
      maybe_spec [where ensure = "Some (counted is_positive)" and allow_warning = False
        and f = "counted_target first_plus_one" and a = "([PInt 1], [])" and s = 0
        and r = "PInt 2" and s'' = 2]
    by blast
  have c2: "maybe None True (counted_target warn_and_return) ([], []) 0
      = (Inr (Just (PInt 7)), 1)"
    using t(2) v(2)
      maybe_spec [where ensure = None and allow_warning = True
        and f = "counted_target warn_and_return" and a = "([], [])" and s = 0
        and r = "PInt 7" and s'' = 1]
    by blast
  have c3: "maybe None False (counted_target target_ValueError) ([], []) 0 = (Inr Nothing, 1)"
    using t(3)
      maybe_spec [where ensure = None and allow_warning = False
        and f = "counted_target target_ValueError" and a = "([], [])" and s = 0
        and e = "OtherException ''ValueError''" and w = "[]" and s' = 1]
    by simp
  have c4: "maybe None False (counted_target warn_and_return) ([], []) 0 = (Inr Nothing, 1)"
    using t(2)
      maybe_spec [where ensure = None and allow_warning = False
        and f = "counted_target warn_and_return" and a = "([], [])" and s = 0
        and r = "PInt 7" and w = "[''deprecated'']" and s' = 1]
    by simp
  have c5: "maybe (Some (counted raise_ValueError)) False (counted_target first_plus_one)
      ([PInt 1], []) 0 = (Inr Nothing, 2)"
    using t(1) v(3)
      maybe_spec [where ensure = "Some (counted raise_ValueError)" and allow_warning = False
        and f = "counted_target first_plus_one" and a = "([PInt 1], [])" and s = 0
        and r = "PInt 2" and w = "[]" and s' = 1 and e = "OtherException ''ValueError''"
        and s'' = 2]
    by simp
  have c6: "maybe (Some (counted return_one)) False (counted_target first_plus_one)
      ([PInt 1], []) 0 = (Inr Nothing, 2)"
    using t(1) v(4)
      maybe_spec [where ensure = "Some (counted return_one)" and allow_warning = False
        and f = "counted_target first_plus_one" and a = "([PInt 1], [])" and s = 0
        and r = "PInt 2" and w = "[]" and s' = 1 and ok = "PInt 1" and s'' = 2]
    by simp
  have c7: "maybe None False (counted_target target_SystemExit) ([], []) 0 = (Inl SystemExit, 1)"
    using t(4)
      maybe_spec [where ensure = None and allow_warning = False
        and f = "counted_target target_SystemExit" and a = "([], [])" and s = 0
        and e = SystemExit and w = "[]" and s' = 1]
    by simp
  have c8: "maybe (Some (counted raise_SystemExit)) False (counted_target first_plus_one)
      ([PInt 1], []) 0 = (Inl SystemExit, 2)"
    using t(1) v(5)
      maybe_spec [where ensure = "Some (counted raise_SystemExit)" and allow_warning = False
        and f = "counted_target first_plus_one" and a = "([PInt 1], [])" and s = 0
        and r = "PInt 2" and w = "[]" and s' = 1 and e = SystemExit and s'' = 2]
    by simp
  from c1 c2 c3 c4 c5 c6 c7 c8 show ?thesis by blast
qed

text \<open>
  C2, as the claim states it, fails: when the target raises \<open>KeyboardInterrupt\<close>, the
  wrapped call does not return \<open>Nothing\<close>; the exception reaches the caller.
\<close>

theorem maybe_KeyboardInterrupt_counterexample:
  "counted_target target_KeyboardInterrupt ([], []) 0 = ((Inl KeyboardInterrupt, []), 1)
   \<and> maybe None False (counted_target target_KeyboardInterrupt) ([], []) 0
     = (Inl KeyboardInterrupt, 1)
   \<and> maybe None False (counted_target target_KeyboardInterrupt) ([], []) 0
     \<noteq> (Inr Nothing, 1)"
  by (simp add: maybe_def with_warning_capture_def counted_target_def
      target_KeyboardInterrupt_def)

text \<open>
  C8, as the code has it. The call wrapped by \<open>perhaps\<close> returns the raw value \<open>r\<close> that
  \<open>f\<close> returned when \<open>f\<close> returns, no warning was recorded or \<open>allow_warning\<close> is true,
  and the validator returns exactly \<open>True\<close> on \<open>r\<close>. It returns the default when \<open>f\<close>
  raises an instance of \<open>Exception\<close>, when a warning was recorded and \<open>allow_warning\<close>
  is false, and when the validator raises an instance of \<open>Exception\<close> or returns an
  object other than \<open>True\<close>. An exception outside \<open>Exception\<close>, raised by \<open>f\<close> or by
  the validator, leaves the wrapped call.
\<close>

theorem perhaps_spec:
  "(f a s = ((Inr r, w), s') \<and> (w = [] \<or> allow_warning)
        \<and> ensure_fn ensure r s' = (Inr (PBool True), s'')
        \<longrightarrow> perhaps dflt ensure allow_warning f a s = (Inr r, s''))
   \<and> (f a s = ((Inl e, w), s') \<and> isinstance_Exception e
        \<longrightarrow> perhaps dflt ensure allow_warning f a s = (Inr dflt, s'))
   \<and> (f a s = ((Inr r, w), s') \<and> w \<noteq> [] \<and> \<not> allow_warning
        \<longrightarrow> perhaps dflt ensure allow_warning f a s = (Inr dflt, s'))
   \<and> (f a s = ((Inr r, w), s') \<and> (w = [] \<or> allow_warning)
        \<and> ensure_fn ensure r s' = (Inl e, s'') \<and> isinstance_Exception e
        \<longrightarrow> perhaps dflt ensure allow_warning f a s = (Inr dflt, s''))
   \<and> (f a s = ((Inr r, w), s') \<and> (w = [] \<or> allow_warning)
        \<and> ensure_fn ensure r s' = (Inr ok, s'') \<and> ok \<noteq> PBool True
        \<longrightarrow> perhaps dflt ensure allow_warning f a s = (Inr dflt, s''))
   \<and> (f a s = ((Inl e, w), s') \<and> \<not> isinstance_Exception e
        \<longrightarrow> perhaps dflt ensure allow_warning f a s = (Inl e, s'))
   \<and> (f a s = ((Inr r, w), s') \<and> (w = [] \<or> allow_warning)
        \<and> ensure_fn ensure r s' = (Inl e, s'') \<and> \<not> isinstance_Exception e
        \<longrightarrow> perhaps dflt ensure allow_warning f a s = (Inl e, s''))"
proof -
  have c1: "perhaps dflt ensure allow_warning f a s = (Inr r, s'')"
    if "f a s = ((Inr r, w), s')" "w = [] \<or> allow_warning"
      "ensure_fn ensure r s' = (Inr (PBool True), s'')"
    using that by (simp add: perhaps_validated)
  have c2: "perhaps dflt ensure allow_warning f a s = (Inr dflt, s')"
    if "f a s = ((Inl e, w), s')" "isinstance_Exception e"
    using that by (simp add: perhaps_target_raises)
  have c3: "perhaps dflt ensure allow_warning f a s = (Inr dflt, s')"
    if "f a s = ((Inr r, w), s')" "w \<noteq> []" "\<not> allow_warning"
    using that by (rule perhaps_warning)
  have c4: "perhaps dflt ensure allow_warning f a s = (Inr dflt, s'')"
    if "f a s = ((Inr r, w), s')" "w = [] \<or> allow_warning"
      "ensure_fn ensure r s' = (Inl e, s'')" "isinstance_Exception e"
    using that by (simp add: perhaps_validated)
  have c5: "perhaps dflt ensure allow_warning f a s = (Inr dflt, s'')"
    if "f a s = ((Inr r, w), s')" "w = [] \<or> allow_warning"
      "ensure_fn ensure r s' = (Inr ok, s'')" "ok \<noteq> PBool True"
    using that by (simp add: perhaps_validated)
  have c6: "perhaps dflt ensure allow_warning f a s = (Inl e, s')"
    if "f a s = ((Inl e, w), s')" "\<not> isinstance_Exception e"
    using that by (simp add: perhaps_target_raises)
  have c7: "perhaps dflt ensure allow_warning f a s = (Inl e, s'')"
    if "f a s = ((Inr r, w), s')" "w = [] \<or> allow_warning"
      "ensure_fn ensure r s' = (Inl e, s'')" "\<not> isinstance_Exception e"
    using that by (simp add: perhaps_validated)
  from c1 c2 c3 c4 c5 c6 c7 show ?thesis by blast
qed

theorem perhaps_spec_witness:
  "perhaps (PInt 99) (Some (counted is_positive)) False (counted_target first_plus_one)
        ([PInt 1], []) 0 = (Inr (PInt 2), 2)
   \<and> perhaps (PInt 99) None True (counted_target warn_and_return) ([], []) 0
     = (Inr (PInt 7), 1)
   \<and> perhaps (PInt 99) None False (counted_target target_ValueError) ([], []) 0
     = (Inr (PInt 99), 1)
   \<and> perhaps (PInt 99) None False (counted_target warn_and_return) ([], []) 0
     = (Inr (PInt 99), 1)
   \<and> perhaps (PInt 99) (Some (counted raise_ValueError)) False (counted_target first_plus_one)
        ([PInt 1], []) 0 = (Inr (PInt 99), 2)
   \<and> perhaps (PInt 99) (Some (counted return_one)) False (counted_target first_plus_one)
        ([PInt 1], []) 0 = (Inr (PInt 99), 2)
   \<and> perhaps (PInt 99) None False (counted_target target_KeyboardInterrupt) ([], []) 0
     = (Inl KeyboardInterrupt, 1)
   \<and> perhaps (PInt 99) (Some (counted raise_KeyboardInterrupt)) False
        (counted_target first_plus_one) ([PInt 1], []) 0 = (Inl KeyboardInterrupt, 2)"
proof -
  note t = example_targets and v = example_validators
  have c1: "perhaps (PInt 99) (Some (counted is_positive)) False (counted_target first_plus_one)
      ([PInt 1], []) 0 = (Inr (PInt 2), 2)"
    using t(1) v(1)
      perhaps_spec [where ensure = "Some (counted is_positive)" and allow_warning = False
        and f = "counted_target first_plus_one" and a = "([PInt 1], [])" and s = 0
        and r = "PInt 2" and w = "[]" and s' = 1 and s'' = 2 and dflt = "PInt 99"]
    by simp
  have c2: "perhaps (PInt 99) None True (counted_target warn_and_return) ([], []) 0
      = (Inr (PInt 7), 1)"
    using t(2) v(2)
      perhaps_spec [where ensure = None and allow_warning = True
        and f = "counted_target warn_and_return" and a = "([], [])" and s = 0
        and r = "PInt 7" and w = "[''deprecated'']" and s' = 1 and s'' = 1
        and dflt = "PInt 99"]
    by simp
  have c3: "perhaps (PInt 99) None False (counted_target target_ValueError) ([], []) 0
      = (Inr (PInt 99), 1)"
    using t(3)
      perhaps_spec [where ensure = None and allow_warning = False
        and f = "counted_target target_ValueError" and a = "([], [])" and s = 0
        and e = "OtherException ''ValueError''" and w = "[]" and s' = 1 and dflt = "PInt 99"]
    by simp
  have c4: "perhaps (PInt 99) None False (counted_target warn_and_return) ([], []) 0
      = (Inr (PInt 99), 1)"
    using t(2)
      perhaps_spec [where ensure = None and allow_warning = False
        and f = "counted_target warn_and_return" and a = "([], [])" and s = 0
        and r = "PInt 7" and w = "[''deprecated'']" and s' = 1 and dflt = "PInt 99"]
    by simp
  have c5: "perhaps (PInt 99) (Some (counted raise_ValueError)) False
      (counted_target first_plus_one) ([PInt 1], []) 0 = (Inr (PInt 99), 2)"
    using t(1) v(3)
      perhaps_spec [where ensure = "Some (counted raise_ValueError)" and allow_warning = False
        and f = "counted_target first_plus_one" and a = "([PInt 1], [])" and s = 0
        and r = "PInt 2" and w = "[]" and s' = 1 and e = "OtherException ''ValueError''"
        and s'' = 2 and dflt = "PInt 99"]
    by simp
  have c6: "perhaps (PInt 99) (Some (counted return_one)) False
      (counted_target first_plus_one) ([PInt 1], []) 0 = (Inr (PInt 99), 2)"
    using t(1) v(4)
      perhaps_spec [where ensure = "Some (counted return_one)" and allow_warning = False
        and f = "counted_target first_plus_one" and a = "([PInt 1], [])" and s = 0
        and r = "PInt 2" and w = "[]" and s' = 1 and ok = "PInt 1" and s'' = 2
        and dflt = "PInt 99"]
    by simp
  have c7: "perhaps (PInt 99) None False (counted_target target_KeyboardInterrupt) ([], []) 0
      = (Inl KeyboardInterrupt, 1)"
    using t(5)
      perhaps_spec [where ensure = None and allow_warning = False
        and f = "counted_target target_KeyboardInterrupt" and a = "([], [])" and s = 0
        and e = KeyboardInterrupt and w = "[]" and s' = 1 and dflt = "PInt 99"]
    by simp
  have c8: "perhaps (PInt 99) (Some (counted raise_KeyboardInterrupt)) False
      (counted_target first_plus_one) ([PInt 1], []) 0 = (Inl KeyboardInterrupt, 2)"
    using t(1) v(6)
      perhaps_spec [where ensure = "Some (counted raise_KeyboardInterrupt)"
        and allow_warning = False
        and f = "counted_target first_plus_one" and a = "([PInt 1], [])" and s = 0
        and r = "PInt 2" and w = "[]" and s' = 1 and e = KeyboardInterrupt and s'' = 2
        and dflt = "PInt 99"]
    by simp
  from c1 c2 c3 c4 c5 c6 c7 c8 show ?thesis by blast
qed

text \<open>
  C8, as the claim states it, fails: when the target raises \<open>SystemExit\<close>, the wrapped
  call does not return the default \<open>99\<close>; the exception reaches the caller.
\<close>

theorem perhaps_SystemExit_counterexample:
  "counted_target target_SystemExit ([], []) 0 = ((Inl SystemExit, []), 1)
   \<and> perhaps (PInt 99) None False (counted_target target_SystemExit) ([], []) 0
     = (Inl SystemExit, 1)
   \<and> perhaps (PInt 99) None False (counted_target target_SystemExit) ([], []) 0
     \<noteq> (Inr (PInt 99), 1)"
  by (simp add: perhaps_def with_warning_capture_def counted_target_def target_SystemExit_def)

section \<open>Properties of ops.py\<close>

text \<open>
  C7. For every starting \<open>Maybe\<close> and every list of step functions, \<open>chain\<close> computes
  what the combinator of the specification computes, which applies the first step with
  \<open>bind\<close> without looking at the starting value and checks the accumulated value before
  every later step: the results and the final states are the same, so that the check the
  code makes before the first step cannot be observed. \<open>chain\<close> applies the steps in
  order with \<open>bind\<close>: it is the left fold of \<open>bind\<close> over the steps. Once the steps so
  far have produced \<open>Nothing\<close>, the result with any further steps \<open>later\<close> is \<open>Nothing\<close>
  in the same state: no later step function is called.
\<close>

theorem chain_spec:
  "(isinstance_Maybe start \<longrightarrow> chain start steps s = run_chain_spec start steps s)
   \<and> (isinstance_Maybe start \<longrightarrow>
        chain start steps s
          = foldl (\<lambda>acc step. and_then acc (\<lambda>c. bind c step)) (ret start) steps s)
   \<and> (chain start steps s = (Inr Nothing, s') \<longrightarrow>
        chain start (steps @ later) s = (Inr Nothing, s'))"
  using chain_eq_run_chain_spec [of start steps s] chain_eq_foldl [of start steps s]
    chain_short_circuit [of start steps s s' later]
  by blast

theorem chain_spec_witness:
  "chain (Just (PInt 1)) [counted just_add_one, counted return_Nothing] 0 = (Inr Nothing, 2)
   \<and> chain (Just (PInt 1)) [counted just_add_one, counted return_Nothing, counted just_add_one] 0
     = (Inr Nothing, 2)
   \<and> run_chain_spec (Just (PInt 1))
        [counted just_add_one, counted return_Nothing, counted just_add_one] 0
     = (Inr Nothing, 2)
   \<and> chain Nothing [counted just_add_one] 0 = (Inr Nothing, 0)
   \<and> run_chain_spec Nothing [counted just_add_one] 0 = (Inr Nothing, 0)
   \<and> chain (Just (PInt 1)) [counted just_add_one, counted just_add_one] 0
     = (Inr (Just (PInt 3)), 2)"
proof -
  have a: "chain (Just (PInt 1)) [counted just_add_one, counted return_Nothing] 0
      = (Inr Nothing, 2)"
    by (simp add: bind_Just counted_def return_Nothing_def del: bind.simps(2))
  have b: "chain (Just (PInt 1))
      ([counted just_add_one, counted return_Nothing] @ [counted just_add_one]) 0
      = (Inr Nothing, 2)"
    using a chain_spec [where start = "Just (PInt 1)"
        and steps = "[counted just_add_one, counted return_Nothing]" and s = 0 and s' = 2
        and later = "[counted just_add_one]"]
    by blast
  have c: "run_chain_spec (Just (PInt 1))
      [counted just_add_one, counted return_Nothing, counted just_add_one] 0
      = chain (Just (PInt 1))
      [counted just_add_one, counted return_Nothing, counted just_add_one] 0"
    using chain_spec [where start = "Just (PInt 1)"
        and steps = "[counted just_add_one, counted return_Nothing, counted just_add_one]"
        and s = 0, THEN conjunct1]
    by (simp del: chain.simps run_chain_spec.simps)
  have d: "run_chain_spec Nothing [counted just_add_one] 0
      = chain Nothing [counted just_add_one] 0"
    using chain_spec [where start = Nothing and steps = "[counted just_add_one]" and s = 0,
        THEN conjunct1]
    by (simp del: chain.simps run_chain_spec.simps chain_Nothing)
  have e: "chain Nothing [counted just_add_one] 0 = (Inr Nothing, 0)"
    by simp
  have f: "chain (Just (PInt 1)) [counted just_add_one, counted just_add_one] 0
      = (Inr (Just (PInt 3)), 2)"
    by (simp add: bind_Just counted_def del: bind.simps(2))
  from a b c d e f show ?thesis by simp
qed

section \<open>Properties of pipelines\<close>

lemma is_nothing_True: "is_nothing m = Inr True \<Longrightarrow> m = Nothing"
  by (cases m) simp_all

lemma chain_append:
  "chain m (fns @ gs) s =
     (case chain m fns s of
        (Inl e, s') \<Rightarrow> (Inl e, s')
      | (Inr c, s') \<Rightarrow> chain c gs s')"
proof (induction fns arbitrary: m s)
  case Nil
  show ?case by simp
next
  case (Cons fn fns)
  show ?case
  proof (cases "is_nothing m")
    case (Inl e)
    then show ?thesis by simp
  next
    case (Inr b)
    show ?thesis
    proof (cases b)
      case True
      with Inr have "m = Nothing" by (simp add: is_nothing_True)
      then show ?thesis by simp
    next
      case False
      show ?thesis
      proof (cases "bind m fn s")
        case (Pair out s1)
        show ?thesis
        proof (cases out)
          case (Inl e)
          with Pair Inr False show ?thesis by simp
        next
          case (Inr c)
          with Pair \<open>is_nothing m = Inr b\<close> False show ?thesis
            by (simp add: Cons.IH)
        qed
      qed
    qed
  qed
qed

lemma chain_step_fails:
  "chain (Just v) fns s = (Inr (Just u), s') \<Longrightarrow> fn u s' = (Inl e, s'') \<Longrightarrow>
   chain (Just v) (fns @ fn # later) s =
     (if isinstance_Exception e then (Inr Nothing, s'') else (Inl e, s''))"
  by (simp add: chain_append bind_Just del: bind.simps(2))

lemma run_stage_Nothing [simp]: "run_stage st Nothing s = (Inr Nothing, s)"
  by (cases st) simp_all

lemma run_pipeline_Nothing [simp]: "run_pipeline Nothing stages s = (Inr Nothing, s)"
  by (induction stages arbitrary: s) simp_all

lemma run_pipeline_append:
  "run_pipeline m (pre @ post) s =
     (case run_pipeline m pre s of
        (Inl e, s') \<Rightarrow> (Inl e, s')
      | (Inr c, s') \<Rightarrow> run_pipeline c post s')"
proof (induction pre arbitrary: m s)
  case Nil
  show ?case by simp
next
  case (Cons st pre)
  show ?case
  proof (cases "run_stage st m s")
    case (Pair out s1)
    then show ?thesis by (cases out) (simp_all add: Cons.IH)
  qed
qed

lemma run_pipeline_stage_fails:
  "run_pipeline m pre s = (Inr c, s') \<Longrightarrow> run_stage st c s' = (Inr Nothing, s'') \<Longrightarrow>
   run_pipeline m (pre @ st # rest) s = (Inr Nothing, s'')"
  by (simp add: run_pipeline_append)

lemma run_pipeline_stage_raises:
  "run_pipeline m pre s = (Inr c, s') \<Longrightarrow> run_stage st c s' = (Inl e, s'') \<Longrightarrow>
   run_pipeline m (pre @ st # rest) s = (Inl e, s'')"
  by (simp add: run_pipeline_append)

lemma fmap_bind_fail:
  "fn v s = (Inl e, s') \<Longrightarrow> isinstance_Exception e \<Longrightarrow>
   fmap (Just v) fn s = (Inr Nothing, s') \<and> bind (Just v) fn s = (Inr Nothing, s')"
  by (simp add: fmap_Just bind_Just del: fmap.simps(2) bind.simps(2))

lemma fmap_bind_raise:
  "fn v s = (Inl e, s') \<Longrightarrow> \<not> isinstance_Exception e \<Longrightarrow>
   fmap (Just v) fn s = (Inl e, s') \<and> bind (Just v) fn s = (Inl e, s')"
  by (simp add: fmap_Just bind_Just del: fmap.simps(2) bind.simps(2))

text \<open>
  C5, as the code has it. A pipeline of \<open>fmap\<close>, \<open>bind\<close> and \<open>chain\<close> stages that
  starts from a \<open>Maybe\<close> returns a \<open>Maybe\<close> whenever it returns, and a call wrapped by
  \<open>maybe\<close> does so too. An exception that leaves a pipeline, or a call wrapped by
  \<open>maybe\<close> or \<open>perhaps\<close>, is never an instance of \<open>Exception\<close>: it is an exception
  outside \<open>Exception\<close> that one of the user-supplied functions (a step function, the
  target or the validator) raised.

  A failure that is an instance of \<open>Exception\<close> is seen as \<open>Nothing\<close> or as the default:
  when the user-supplied function raises it, \<open>fmap\<close> and \<open>bind\<close> on a \<open>Just\<close> return
  \<open>Nothing\<close>, and so does \<open>chain\<close> when the failing step is reached with a \<open>Just\<close>;
  \<open>fmap\<close>, \<open>bind\<close>, \<open>chain\<close> and every pipeline return \<open>Nothing\<close> on \<open>Nothing\<close>
  without a call, so that a pipeline one of whose stages returns \<open>Nothing\<close> returns
  \<open>Nothing\<close> in the state that stage left, whatever the later stages are. A call wrapped
  by \<open>maybe\<close> returns \<open>Nothing\<close>, and one wrapped by \<open>perhaps\<close> the default, when the
  target raises such an exception, when a warning is recorded and not allowed, and when
  the validator raises such an exception or returns an object other than \<open>True\<close>.

  An exception outside \<open>Exception\<close> raised by a user-supplied function surfaces: from
  \<open>fmap\<close> and \<open>bind\<close>, from \<open>chain\<close> at the step that raises it, from the pipeline at
  the stage that raises it, and from a wrapped call when the target or the validator
  raises it.
\<close>

theorem pipeline_spec:
  "(isinstance_Maybe m \<and> run_pipeline m stages s = (Inr r, s') \<longrightarrow> isinstance_Maybe r)
   \<and> (isinstance_Maybe m \<and> run_pipeline m stages s = (Inl e, s') \<longrightarrow>
        \<not> isinstance_Exception e
        \<and> (\<exists>fn\<in>set (pipeline_funs stages). \<exists>v t. fn v t = (Inl e, s')))
   \<and> (maybe ensure allow_warning f a s = (Inr r, s') \<longrightarrow> isinstance_Maybe r)
   \<and> (maybe ensure allow_warning f a s = (Inl e, s') \<longrightarrow>
        \<not> isinstance_Exception e
        \<and> ((\<exists>w. f a s = ((Inl e, w), s')) \<or> (\<exists>r t. ensure_fn ensure r t = (Inl e, s'))))
   \<and> (perhaps dflt ensure allow_warning f a s = (Inl e, s') \<longrightarrow>
        \<not> isinstance_Exception e
        \<and> ((\<exists>w. f a s = ((Inl e, w), s')) \<or> (\<exists>r t. ensure_fn ensure r t = (Inl e, s'))))
   \<and> fmap Nothing fn s = (Inr Nothing, s)
   \<and> bind Nothing fn s = (Inr Nothing, s)
   \<and> chain Nothing fns s = (Inr Nothing, s)
   \<and> run_pipeline Nothing stages s = (Inr Nothing, s)
   \<and> (fn v s = (Inl e, s') \<and> isinstance_Exception e \<longrightarrow>
        fmap (Just v) fn s = (Inr Nothing, s') \<and> bind (Just v) fn s = (Inr Nothing, s'))
   \<and> (fn v s = (Inl e, s') \<and> \<not> isinstance_Exception e \<longrightarrow>
        fmap (Just v) fn s = (Inl e, s') \<and> bind (Just v) fn s = (Inl e, s'))
   \<and> (chain (Just v) fns s = (Inr (Just u), s') \<and> fn u s' = (Inl e, s'')
        \<and> isinstance_Exception e \<longrightarrow>
        chain (Just v) (fns @ fn # later) s = (Inr Nothing, s''))
   \<and> (chain (Just v) fns s = (Inr (Just u), s') \<and> fn u s' = (Inl e, s'')
        \<and> \<not> isinstance_Exception e \<longrightarrow>
        chain (Just v) (fns @ fn # later) s = (Inl e, s''))
   \<and> (run_pipeline m pre s = (Inr c, s') \<and> run_stage st c s' = (Inr Nothing, s'') \<longrightarrow>
        run_pipeline m (pre @ st # rest) s = (Inr Nothing, s''))
   \<and> (run_pipeline m pre s = (Inr c, s') \<and> run_stage st c s' = (Inl e, s'') \<longrightarrow>
        run_pipeline m (pre @ st # rest) s = (Inl e, s''))
   \<and> (f a s = ((Inl e, w), s') \<and> isinstance_Exception e \<longrightarrow>
        maybe ensure allow_warning f a s = (Inr Nothing, s')
        \<and> perhaps dflt ensure allow_warning f a s = (Inr dflt, s'))
   \<and> (f a s = ((Inr r, w), s') \<and> w \<noteq> [] \<and> \<not> allow_warning \<longrightarrow>
        maybe ensure allow_warning f a s = (Inr Nothing, s')
        \<and> perhaps dflt ensure allow_warning f a s = (Inr dflt, s'))
   \<and> (f a s = ((Inr r, w), s') \<and> (w = [] \<or> allow_warning)
        \<and> ensure_fn ensure r s' = (Inl e, s'') \<and> isinstance_Exception e \<longrightarrow>
        maybe ensure allow_warning f a s = (Inr Nothing, s'')
        \<and> perhaps dflt ensure allow_warning f a s = (Inr dflt, s''))
   \<and> (f a s = ((Inr r, w), s') \<and> (w = [] \<or> allow_warning)
        \<and> ensure_fn ensure r s' = (Inr ok, s'') \<and> ok \<noteq> PBool True \<longrightarrow>
        maybe ensure allow_warning f a s = (Inr Nothing, s'')
        \<and> perhaps dflt ensure allow_warning f a s = (Inr dflt, s''))
   \<and> (f a s = ((Inl e, w), s') \<and> \<not> isinstance_Exception e \<longrightarrow>
        maybe ensure allow_warning f a s = (Inl e, s')
        \<and> perhaps dflt ensure allow_warning f a s = (Inl e, s'))
   \<and> (f a s = ((Inr r, w), s') \<and> (w = [] \<or> allow_warning)
        \<and> ensure_fn ensure r s' = (Inl e, s'') \<and> \<not> isinstance_Exception e \<longrightarrow>
        maybe ensure allow_warning f a s = (Inl e, s'')
        \<and> perhaps dflt ensure allow_warning f a s = (Inl e, s''))"
proof -
  have k1: "isinstance_Maybe m \<and> run_pipeline m stages s = (Inr r, s') \<longrightarrow> isinstance_Maybe r"
    using run_pipeline_returns_Maybe [of m stages s r s'] by blast
  have k2: "isinstance_Maybe m \<and> run_pipeline m stages s = (Inl e, s') \<longrightarrow>
        \<not> isinstance_Exception e
        \<and> (\<exists>fn\<in>set (pipeline_funs stages). \<exists>v t. fn v t = (Inl e, s'))"
    using run_pipeline_raises [of m stages s e s'] by blast
  have k3: "maybe ensure allow_warning f a s = (Inr r, s') \<longrightarrow> isinstance_Maybe r"
    using maybe_returns_Maybe [of ensure allow_warning f a s r s'] by blast
  have k4: "maybe ensure allow_warning f a s = (Inl e, s') \<longrightarrow>
        \<not> isinstance_Exception e
        \<and> ((\<exists>w. f a s = ((Inl e, w), s')) \<or> (\<exists>r t. ensure_fn ensure r t = (Inl e, s')))"
    using maybe_raises [of ensure allow_warning f a s e s'] by blast
  have k5: "perhaps dflt ensure allow_warning f a s = (Inl e, s') \<longrightarrow>
        \<not> isinstance_Exception e
        \<and> ((\<exists>w. f a s = ((Inl e, w), s')) \<or> (\<exists>r t. ensure_fn ensure r t = (Inl e, s')))"
    using perhaps_raises [of dflt ensure allow_warning f a s e s'] by blast
  have k6: "fmap Nothing fn s = (Inr Nothing, s)" by simp
  have k7: "bind Nothing fn s = (Inr Nothing, s)" by simp
  have k8: "chain Nothing fns s = (Inr Nothing, s)" by simp
  have k9: "run_pipeline Nothing stages s = (Inr Nothing, s)" by simp
  have k10: "fn v s = (Inl e, s') \<and> isinstance_Exception e \<longrightarrow>
        fmap (Just v) fn s = (Inr Nothing, s') \<and> bind (Just v) fn s = (Inr Nothing, s')"
    using fmap_bind_fail [of fn v s e s'] by blast
  have k11: "fn v s = (Inl e, s') \<and> \<not> isinstance_Exception e \<longrightarrow>
        fmap (Just v) fn s = (Inl e, s') \<and> bind (Just v) fn s = (Inl e, s')"
    using fmap_bind_raise [of fn v s e s'] by blast
  have k12: "chain (Just v) fns s = (Inr (Just u), s') \<and> fn u s' = (Inl e, s'')
        \<and> isinstance_Exception e \<longrightarrow>
        chain (Just v) (fns @ fn # later) s = (Inr Nothing, s'')"
    using chain_step_fails [of v fns s u s' fn e s'' later] by simp
  have k13: "chain (Just v) fns s = (Inr (Just u), s') \<and> fn u s' = (Inl e, s'')
        \<and> \<not> isinstance_Exception e \<longrightarrow>
        chain (Just v) (fns @ fn # later) s = (Inl e, s'')"
    using chain_step_fails [of v fns s u s' fn e s'' later] by simp
  have k14: "run_pipeline m pre s = (Inr c, s') \<and> run_stage st c s' = (Inr Nothing, s'') \<longrightarrow>
        run_pipeline m (pre @ st # rest) s = (Inr Nothing, s'')"
    using run_pipeline_stage_fails [of m pre s c s' st s'' rest] by blast
  have k15: "run_pipeline m pre s = (Inr c, s') \<and> run_stage st c s' = (Inl e, s'') \<longrightarrow>
        run_pipeline m (pre @ st # rest) s = (Inl e, s'')"
    using run_pipeline_stage_raises [of m pre s c s' st e s'' rest] by blast
  have k16: "f a s = ((Inl e, w), s') \<and> isinstance_Exception e \<longrightarrow>
        maybe ensure allow_warning f a s = (Inr Nothing, s')
        \<and> perhaps dflt ensure allow_warning f a s = (Inr dflt, s')"
    by (simp add: maybe_target_raises perhaps_target_raises)
  have k17: "f a s = ((Inr r, w), s') \<and> w \<noteq> [] \<and> \<not> allow_warning \<longrightarrow>
        maybe ensure allow_warning f a s = (Inr Nothing, s')
        \<and> perhaps dflt ensure allow_warning f a s = (Inr dflt, s')"
    by (simp add: maybe_warning perhaps_warning)
  have k18: "f a s = ((Inr r, w), s') \<and> (w = [] \<or> allow_warning)
        \<and> ensure_fn ensure r s' = (Inl e, s'') \<and> isinstance_Exception e \<longrightarrow>
        maybe ensure allow_warning f a s = (Inr Nothing, s'')
        \<and> perhaps dflt ensure allow_warning f a s = (Inr dflt, s'')"
    by (simp add: maybe_validated perhaps_validated)
  have k19: "f a s = ((Inr r, w), s') \<and> (w = [] \<or> allow_warning)
        \<and> ensure_fn ensure r s' = (Inr ok, s'') \<and> ok \<noteq> PBool True \<longrightarrow>
        maybe ensure allow_warning f a s = (Inr Nothing, s'')
        \<and> perhaps dflt ensure allow_warning f a s = (Inr dflt, s'')"
    by (simp add: maybe_validated perhaps_validated)
  have k20: "f a s = ((Inl e, w), s') \<and> \<not> isinstance_Exception e \<longrightarrow>
        maybe ensure allow_warning f a s = (Inl e, s')
        \<and> perhaps dflt ensure allow_warning f a s = (Inl e, s')"
    by (simp add: maybe_target_raises perhaps_target_raises)
  have k21: "f a s = ((Inr r, w), s') \<and> (w = [] \<or> allow_warning)
        \<and> ensure_fn ensure r s' = (Inl e, s'') \<and> \<not> isinstance_Exception e \<longrightarrow>
        maybe ensure allow_warning f a s = (Inl e, s'')
        \<and> perhaps dflt ensure allow_warning f a s = (Inl e, s'')"
    by (simp add: maybe_validated perhaps_validated)
  show ?thesis
    by (intro conjI) (fact k1 k2 k3 k4 k5 k6 k7 k8 k9 k10 k11 k12 k13 k14 k15 k16 k17 k18 k19
        k20 k21)+
qed

theorem pipeline_spec_witness:
  "isinstance_Maybe (Just (PInt 1))
   \<and> run_pipeline (Just (PInt 1))
        [FmapStage (counted add_one), BindStage (counted raise_ValueError),
         ChainStage [counted just_add_one]] 0 = (Inr Nothing, 2)
   \<and> isinstance_Maybe Nothing
   \<and> run_pipeline (Just (PInt 1))
        [BindStage (maybe_step (Some (counted is_positive)) False
           (counted_target first_plus_one)),
         FmapStage (perhaps_step (PInt 99) None False (counted_target target_ValueError))] 0
      = (Inr (Just (PInt 99)), 3)
   \<and> isinstance_Maybe (Just (PInt 99))
   \<and> run_pipeline (Just (PInt 1))
        [FmapStage (counted add_one), FmapStage (counted raise_KeyboardInterrupt),
         BindStage (counted just_add_one)] 0 = (Inl KeyboardInterrupt, 2)
   \<and> \<not> isinstance_Exception KeyboardInterrupt
   \<and> \<not> isinstance_Exception SystemExit
   \<and> fmap (Just (PInt 1)) (counted raise_ValueError) 0 = (Inr Nothing, 1)
   \<and> bind (Just (PInt 1)) (counted raise_ValueError) 0 = (Inr Nothing, 1)
   \<and> fmap (Just (PInt 1)) (counted raise_SystemExit) 0 = (Inl SystemExit, 1)
   \<and> bind (Just (PInt 1)) (counted raise_SystemExit) 0 = (Inl SystemExit, 1)
   \<and> chain (Just (PInt 1))
        [counted just_add_one, counted raise_ValueError, counted just_add_one] 0
      = (Inr Nothing, 2)
   \<and> chain (Just (PInt 1))
        [counted just_add_one, counted raise_SystemExit, counted just_add_one] 0
      = (Inl SystemExit, 2)
   \<and> run_pipeline (Just (PInt 1))
        [FmapStage (counted add_one), BindStage (counted raise_ValueError),
         FmapStage (counted add_one)] 0 = (Inr Nothing, 2)
   \<and> maybe None False (counted_target target_ValueError) ([], []) 0 = (Inr Nothing, 1)
   \<and> perhaps (PInt 99) None False (counted_target target_ValueError) ([], []) 0
      = (Inr (PInt 99), 1)
   \<and> maybe None False (counted_target warn_and_return) ([], []) 0 = (Inr Nothing, 1)
   \<and> perhaps (PInt 99) None False (counted_target warn_and_return) ([], []) 0
      = (Inr (PInt 99), 1)
   \<and> maybe (Some (counted raise_ValueError)) False (counted_target first_plus_one)
        ([PInt 1], []) 0 = (Inr Nothing, 2)
   \<and> perhaps (PInt 99) (Some (counted raise_ValueError)) False (counted_target first_plus_one)
        ([PInt 1], []) 0 = (Inr (PInt 99), 2)
   \<and> maybe (Some (counted return_one)) False (counted_target first_plus_one)
        ([PInt 1], []) 0 = (Inr Nothing, 2)
   \<and> perhaps (PInt 99) (Some (counted return_one)) False (counted_target first_plus_one)
        ([PInt 1], []) 0 = (Inr (PInt 99), 2)
   \<and> maybe None False (counted_target target_SystemExit) ([], []) 0 = (Inl SystemExit, 1)
   \<and> perhaps (PInt 99) None False (counted_target target_SystemExit) ([], []) 0
      = (Inl SystemExit, 1)
   \<and> maybe (Some (counted raise_SystemExit)) False (counted_target first_plus_one)
        ([PInt 1], []) 0 = (Inl SystemExit, 2)
   \<and> perhaps (PInt 99) (Some (counted raise_SystemExit)) False (counted_target first_plus_one)
        ([PInt 1], []) 0 = (Inl SystemExit, 2)"
proof -
  note t = example_targets and v = example_validators
  have m: "isinstance_Maybe (Just (PInt 1))" by simp
  have xv: "isinstance_Exception (OtherException ''ValueError'')" by simp
  have xs: "\<not> isinstance_Exception SystemExit" by simp
  have one: "PInt 1 \<noteq> PBool True" by simp
  have ne: "[''deprecated''] \<noteq> ([] :: warning list)" by simp
  have a: "run_pipeline (Just (PInt 1))
        [FmapStage (counted add_one), BindStage (counted raise_ValueError),
         ChainStage [counted just_add_one]] 0 = (Inr Nothing, 2)"
    by (simp add: fmap_Just bind_Just counted_def raise_ValueError_def
        del: fmap.simps(2) bind.simps(2))
  have b: "run_pipeline (Just (PInt 1))
        [FmapStage (counted add_one), FmapStage (counted raise_KeyboardInterrupt),
         BindStage (counted just_add_one)] 0 = (Inl KeyboardInterrupt, 2)"
    by (simp add: fmap_Just bind_Just counted_def raise_KeyboardInterrupt_def
        del: fmap.simps(2) bind.simps(2))
  have w: "run_pipeline (Just (PInt 1))
        [BindStage (maybe_step (Some (counted is_positive)) False
           (counted_target first_plus_one)),
         FmapStage (perhaps_step (PInt 99) None False (counted_target target_ValueError))] 0
      = (Inr (Just (PInt 99)), 3)"
    by (simp add: fmap_Just bind_Just counted_def maybe_step_def perhaps_step_def
        maybe_def perhaps_def with_warning_capture_def ensure_fn_def counted_target_def
        target_ValueError_def nothing_def just_def not_true_def
        del: fmap.simps(2) bind.simps(2))
  have h1: "counted raise_ValueError (PInt 1) 0 = (Inl (OtherException ''ValueError''), 1)"
    by (simp add: counted_def raise_ValueError_def)
  have h2: "counted raise_SystemExit (PInt 1) 0 = (Inl SystemExit, 1)"
    by (simp add: counted_def raise_SystemExit_def)
  have h3: "chain (Just (PInt 1)) [counted just_add_one] 0 = (Inr (Just (PInt 2)), 1)"
    by (simp add: bind_Just counted_def del: bind.simps(2))
  have h4: "counted raise_ValueError (PInt 2) 1 = (Inl (OtherException ''ValueError''), 2)"
    by (simp add: counted_def raise_ValueError_def)
  have h5: "counted raise_SystemExit (PInt 2) 1 = (Inl SystemExit, 2)"
    by (simp add: counted_def raise_SystemExit_def)
  have h6: "run_pipeline (Just (PInt 1)) [FmapStage (counted add_one)] 0
      = (Inr (Just (PInt 2)), 1)"
    by (simp add: fmap_Just counted_def del: fmap.simps(2))
  have h7: "run_stage (BindStage (counted raise_ValueError)) (Just (PInt 2)) 1
      = (Inr Nothing, 2)"
    by (simp add: bind_Just counted_def raise_ValueError_def del: bind.simps(2))
  have r0: "isinstance_Maybe (Just (PInt 99))"
    using m w
      pipeline_spec [where m = "Just (PInt 1)"
        and stages = "[BindStage (maybe_step (Some (counted is_positive)) False
           (counted_target first_plus_one)),
         FmapStage (perhaps_step (PInt 99) None False (counted_target target_ValueError))]"
        and s = 0 and r = "Just (PInt 99)" and s' = 3, THEN conjunct1]
    by blast
  have r1: "isinstance_Maybe Nothing"
    using m a
      pipeline_spec [where m = "Just (PInt 1)"
        and stages = "[FmapStage (counted add_one), BindStage (counted raise_ValueError),
           ChainStage [counted just_add_one]]" and s = 0 and r = Nothing and s' = 2,
        THEN conjunct1]
    by blast
  have r2: "\<not> isinstance_Exception KeyboardInterrupt"
    using m b
      pipeline_spec [where m = "Just (PInt 1)"
        and stages = "[FmapStage (counted add_one), FmapStage (counted raise_KeyboardInterrupt),
           BindStage (counted just_add_one)]" and s = 0 and e = KeyboardInterrupt and s' = 2,
        THEN conjunct2, THEN conjunct1]
    by blast
  have n1: "fmap (Just (PInt 1)) (counted raise_ValueError) 0 = (Inr Nothing, 1)
      \<and> bind (Just (PInt 1)) (counted raise_ValueError) 0 = (Inr Nothing, 1)"
    using h1 xv
      pipeline_spec [where fn = "counted raise_ValueError" and v = "PInt 1" and s = 0
        and e = "OtherException ''ValueError''" and s' = 1,
        THEN conjunct2, THEN conjunct2, THEN conjunct2, THEN conjunct2, THEN conjunct2,
        THEN conjunct2, THEN conjunct2, THEN conjunct2, THEN conjunct2, THEN conjunct1]
    by blast
  have n2: "fmap (Just (PInt 1)) (counted raise_SystemExit) 0 = (Inl SystemExit, 1)
      \<and> bind (Just (PInt 1)) (counted raise_SystemExit) 0 = (Inl SystemExit, 1)"
    using h2 xs
      pipeline_spec [where fn = "counted raise_SystemExit" and v = "PInt 1" and s = 0
        and e = SystemExit and s' = 1,
        THEN conjunct2, THEN conjunct2, THEN conjunct2, THEN conjunct2, THEN conjunct2,
        THEN conjunct2, THEN conjunct2, THEN conjunct2, THEN conjunct2, THEN conjunct2,
        THEN conjunct1]
    by blast
  have n3: "chain (Just (PInt 1))
        ([counted just_add_one] @ counted raise_ValueError # [counted just_add_one]) 0
      = (Inr Nothing, 2)"
    using h3 h4 xv
      pipeline_spec [where v = "PInt 1" and fns = "[counted just_add_one]" and s = 0 and u = "PInt 2"
        and s' = 1 and fn = "counted raise_ValueError" and e = "OtherException ''ValueError''"
        and s'' = 2 and later = "[counted just_add_one]",
        THEN conjunct2, THEN conjunct2, THEN conjunct2, THEN conjunct2, THEN conjunct2,
        THEN conjunct2, THEN conjunct2, THEN conjunct2, THEN conjunct2, THEN conjunct2,
        THEN conjunct2, THEN conjunct1]
    by blast
  have n4: "chain (Just (PInt 1))
        ([counted just_add_one] @ counted raise_SystemExit # [counted just_add_one]) 0
      = (Inl SystemExit, 2)"
    using h3 h5 xs
      pipeline_spec [where v = "PInt 1" and fns = "[counted just_add_one]" and s = 0 and u = "PInt 2"
        and s' = 1 and fn = "counted raise_SystemExit" and e = SystemExit
        and s'' = 2 and later = "[counted just_add_one]",
        THEN conjunct2, THEN conjunct2, THEN conjunct2, THEN conjunct2, THEN conjunct2,
        THEN conjunct2, THEN conjunct2, THEN conjunct2, THEN conjunct2, THEN conjunct2,
        THEN conjunct2, THEN conjunct2, THEN conjunct1]
    by blast
  have n5: "run_pipeline (Just (PInt 1))
        ([FmapStage (counted add_one)] @ BindStage (counted raise_ValueError)
          # [FmapStage (counted add_one)]) 0 = (Inr Nothing, 2)"
    using h6 h7
      pipeline_spec [where m = "Just (PInt 1)" and pre = "[FmapStage (counted add_one)]" and s = 0
        and c = "Just (PInt 2)" and s' = 1 and st = "BindStage (counted raise_ValueError)"
        and s'' = 2 and rest = "[FmapStage (counted add_one)]",
        THEN conjunct2, THEN conjunct2, THEN conjunct2, THEN conjunct2, THEN conjunct2,
        THEN conjunct2, THEN conjunct2, THEN conjunct2, THEN conjunct2, THEN conjunct2,
        THEN conjunct2, THEN conjunct2, THEN conjunct2, THEN conjunct1]
    by blast
  have n7: "maybe None False (counted_target target_ValueError) ([], []) 0 = (Inr Nothing, 1)
      \<and> perhaps (PInt 99) None False (counted_target target_ValueError) ([], []) 0
        = (Inr (PInt 99), 1)"
    using t(3) xv
      pipeline_spec [where f = "counted_target target_ValueError" and a = "([], [])" and s = 0
        and e = "OtherException ''ValueError''" and w = "[]" and s' = 1 and ensure = None
        and allow_warning = False and dflt = "PInt 99",
        THEN conjunct2, THEN conjunct2, THEN conjunct2, THEN conjunct2, THEN conjunct2,
        THEN conjunct2, THEN conjunct2, THEN conjunct2, THEN conjunct2, THEN conjunct2,
        THEN conjunct2, THEN conjunct2, THEN conjunct2, THEN conjunct2, THEN conjunct2,
        THEN conjunct1]
    by blast
  have n8: "maybe None False (counted_target warn_and_return) ([], []) 0 = (Inr Nothing, 1)
      \<and> perhaps (PInt 99) None False (counted_target warn_and_return) ([], []) 0
        = (Inr (PInt 99), 1)"
    using t(2) ne
      pipeline_spec [where f = "counted_target warn_and_return" and a = "([], [])" and s = 0
        and r = "PInt 7" and w = "[''deprecated'']" and s' = 1 and ensure = None
        and allow_warning = False and dflt = "PInt 99",
        THEN conjunct2, THEN conjunct2, THEN conjunct2, THEN conjunct2, THEN conjunct2,
        THEN conjunct2, THEN conjunct2, THEN conjunct2, THEN conjunct2, THEN conjunct2,
        THEN conjunct2, THEN conjunct2, THEN conjunct2, THEN conjunct2, THEN conjunct2,
        THEN conjunct2, THEN conjunct1]
    by blast
  have n9: "maybe (Some (counted raise_ValueError)) False (counted_target first_plus_one)
        ([PInt 1], []) 0 = (Inr Nothing, 2)
      \<and> perhaps (PInt 99) (Some (counted raise_ValueError)) False
        (counted_target first_plus_one) ([PInt 1], []) 0 = (Inr (PInt 99), 2)"
    using t(1) v(3) xv
      pipeline_spec [where f = "counted_target first_plus_one" and a = "([PInt 1], [])" and s = 0
        and r = "PInt 2" and w = "[]" and s' = 1 and ensure = "Some (counted raise_ValueError)"
        and e = "OtherException ''ValueError''" and s'' = 2
        and allow_warning = False and dflt = "PInt 99",
        THEN conjunct2, THEN conjunct2, THEN conjunct2, THEN conjunct2, THEN conjunct2,
        THEN conjunct2, THEN conjunct2, THEN conjunct2, THEN conjunct2, THEN conjunct2,
        THEN conjunct2, THEN conjunct2, THEN conjunct2, THEN conjunct2, THEN conjunct2,
        THEN conjunct2, THEN conjunct2, THEN conjunct1]
    by blast
  have n10: "maybe (Some (counted return_one)) False (counted_target first_plus_one)
        ([PInt 1], []) 0 = (Inr Nothing, 2)
      \<and> perhaps (PInt 99) (Some (counted return_one)) False
        (counted_target first_plus_one) ([PInt 1], []) 0 = (Inr (PInt 99), 2)"
    using t(1) v(4) one
      pipeline_spec [where f = "counted_target first_plus_one" and a = "([PInt 1], [])" and s = 0
        and r = "PInt 2" and w = "[]" and s' = 1 and ensure = "Some (counted return_one)"
        and ok = "PInt 1" and s'' = 2 and allow_warning = False and dflt = "PInt 99",
        THEN conjunct2, THEN conjunct2, THEN conjunct2, THEN conjunct2, THEN conjunct2,
        THEN conjunct2, THEN conjunct2, THEN conjunct2, THEN conjunct2, THEN conjunct2,
        THEN conjunct2, THEN conjunct2, THEN conjunct2, THEN conjunct2, THEN conjunct2,
        THEN conjunct2, THEN conjunct2, THEN conjunct2, THEN conjunct1]
    by blast
  have n11: "maybe None False (counted_target target_SystemExit) ([], []) 0
        = (Inl SystemExit, 1)
      \<and> perhaps (PInt 99) None False (counted_target target_SystemExit) ([], []) 0
        = (Inl SystemExit, 1)"
    using t(4) xs
      pipeline_spec [where f = "counted_target target_SystemExit" and a = "([], [])" and s = 0
        and e = SystemExit and w = "[]" and s' = 1 and ensure = None
        and allow_warning = False and dflt = "PInt 99",
        THEN conjunct2, THEN conjunct2, THEN conjunct2, THEN conjunct2, THEN conjunct2,
        THEN conjunct2, THEN conjunct2, THEN conjunct2, THEN conjunct2, THEN conjunct2,
        THEN conjunct2, THEN conjunct2, THEN conjunct2, THEN conjunct2, THEN conjunct2,
        THEN conjunct2, THEN conjunct2, THEN conjunct2, THEN conjunct2, THEN conjunct1]
    by blast
  have n12: "maybe (Some (counted raise_SystemExit)) False (counted_target first_plus_one)
        ([PInt 1], []) 0 = (Inl SystemExit, 2)
      \<and> perhaps (PInt 99) (Some (counted raise_SystemExit)) False
        (counted_target first_plus_one) ([PInt 1], []) 0 = (Inl SystemExit, 2)"
    using t(1) v(5) xs
      pipeline_spec [where f = "counted_target first_plus_one" and a = "([PInt 1], [])" and s = 0
        and r = "PInt 2" and w = "[]" and s' = 1 and ensure = "Some (counted raise_SystemExit)"
        and e = SystemExit and s'' = 2 and allow_warning = False and dflt = "PInt 99",
        THEN conjunct2, THEN conjunct2, THEN conjunct2, THEN conjunct2, THEN conjunct2,
        THEN conjunct2, THEN conjunct2, THEN conjunct2, THEN conjunct2, THEN conjunct2,
        THEN conjunct2, THEN conjunct2, THEN conjunct2, THEN conjunct2, THEN conjunct2,
        THEN conjunct2, THEN conjunct2, THEN conjunct2, THEN conjunct2, THEN conjunct2]
    by blast
  from n3 have n3': "chain (Just (PInt 1))
        [counted just_add_one, counted raise_ValueError, counted just_add_one] 0
      = (Inr Nothing, 2)"
    by (simp del: chain.simps)
  from n4 have n4': "chain (Just (PInt 1))
        [counted just_add_one, counted raise_SystemExit, counted just_add_one] 0
      = (Inl SystemExit, 2)"
    by (simp del: chain.simps)
  from n5 have n5': "run_pipeline (Just (PInt 1))
        [FmapStage (counted add_one), BindStage (counted raise_ValueError),
         FmapStage (counted add_one)] 0 = (Inr Nothing, 2)"
    by (simp del: run_pipeline.simps)
  show ?thesis
    by (intro conjI)
      (fact m a r1 w r0 b r2 xs n1 [THEN conjunct1] n1 [THEN conjunct2] n2 [THEN conjunct1]
        n2 [THEN conjunct2] n3' n4' n5' n7 [THEN conjunct1] n7 [THEN conjunct2]
        n8 [THEN conjunct1] n8 [THEN conjunct2] n9 [THEN conjunct1] n9 [THEN conjunct2]
        n10 [THEN conjunct1] n10 [THEN conjunct2] n11 [THEN conjunct1] n11 [THEN conjunct2]
        n12 [THEN conjunct1] n12 [THEN conjunct2])+
qed

text \<open>
  C5, as the claim states it, fails: a step function that raises \<open>SystemExit\<close> makes
  the pipeline, \<open>fmap\<close> and \<open>chain\<close> raise it to the caller.
\<close>

theorem pipeline_SystemExit_counterexample:
  "counted raise_SystemExit (PInt 2) 1 = (Inl SystemExit, 2)
   \<and> run_pipeline (Just (PInt 1))
        [FmapStage (counted add_one), BindStage (counted raise_SystemExit)] 0
      = (Inl SystemExit, 2)
   \<and> fmap (Just (PInt 1)) (counted raise_SystemExit) 0 = (Inl SystemExit, 1)
   \<and> chain (Just (PInt 1)) [counted raise_SystemExit] 0 = (Inl SystemExit, 1)"
  by (simp add: fmap_Just bind_Just counted_def raise_SystemExit_def
      del: fmap.simps(2) bind.simps(2))

end
